theory Spec2Isabelle
  imports Main "HOL-Library.Sublist" "HOL-Library.Product_Lexorder"
begin

section \<open>AWS Blogs MCP server: a shallow embedding\<close>

text \<open>
  The development follows \<^verbatim>\<open>awslabs/aws_blogs_mcp_server/server.py\<close>,
  \<^verbatim>\<open>utils.py\<close> and \<^verbatim>\<open>models.py\<close>. Python strings are character lists whose
  characters are the code points below 256; \<^verbatim>\<open>str.lower\<close> and the whitespace class
  are those of Python on these code points. Integers that the tool schema constrains to be non-negative
  (\<^verbatim>\<open>limit\<close>, \<^verbatim>\<open>max_length\<close>, \<^verbatim>\<open>start_index\<close>) are naturals. A function that
  logs or performs an HTTP request returns the list of these events beside its value.
\<close>

subsection \<open>Strings\<close>

text \<open>
  The capital letters below 256 and their small letters: A to Z, and the accented capitals
  from 0xC0 to 0xDE without the multiplication sign 0xD7.
\<close>

definition upper_letters :: string where
  "upper_letters = ''ABCDEFGHIJKLMNOPQRSTUVWXYZ''
     @ [CHR 0xC0, CHR 0xC1, CHR 0xC2, CHR 0xC3, CHR 0xC4, CHR 0xC5, CHR 0xC6, CHR 0xC7,
        CHR 0xC8, CHR 0xC9, CHR 0xCA, CHR 0xCB, CHR 0xCC, CHR 0xCD, CHR 0xCE, CHR 0xCF,
        CHR 0xD0, CHR 0xD1, CHR 0xD2, CHR 0xD3, CHR 0xD4, CHR 0xD5, CHR 0xD6,
        CHR 0xD8, CHR 0xD9, CHR 0xDA, CHR 0xDB, CHR 0xDC, CHR 0xDD, CHR 0xDE]"

definition lower_letters :: string where
  "lower_letters = ''abcdefghijklmnopqrstuvwxyz''
     @ [CHR 0xE0, CHR 0xE1, CHR 0xE2, CHR 0xE3, CHR 0xE4, CHR 0xE5, CHR 0xE6, CHR 0xE7,
        CHR 0xE8, CHR 0xE9, CHR 0xEA, CHR 0xEB, CHR 0xEC, CHR 0xED, CHR 0xEE, CHR 0xEF,
        CHR 0xF0, CHR 0xF1, CHR 0xF2, CHR 0xF3, CHR 0xF4, CHR 0xF5, CHR 0xF6,
        CHR 0xF8, CHR 0xF9, CHR 0xFA, CHR 0xFB, CHR 0xFC, CHR 0xFD, CHR 0xFE]"

definition lower_char :: "char \<Rightarrow> char" where
  "lower_char c =
     (case map_of (zip upper_letters lower_letters) c of
        Some d \<Rightarrow> d
      | None \<Rightarrow> c)"

text \<open>\<^verbatim>\<open>s.lower()\<close>\<close>

definition str_lower :: "string \<Rightarrow> string" where
  "str_lower s = map lower_char s"

text \<open>\<^verbatim>\<open>q in s\<close> on strings: \<open>q\<close> occurs in \<open>s\<close> as a contiguous block.\<close>

fun str_in :: "string \<Rightarrow> string \<Rightarrow> bool" where
  "str_in q [] = (q = [])"
| "str_in q (c # cs) = (prefix q (c # cs) \<or> str_in q cs)"

text \<open>\<^verbatim>\<open>s.startswith(p)\<close>\<close>

definition startswith :: "string \<Rightarrow> string \<Rightarrow> bool" where
  "startswith s p = prefix p s"

definition digit_char :: "nat \<Rightarrow> char" where
  "digit_char d =
     (if d = 0 then CHR ''0'' else if d = 1 then CHR ''1'' else if d = 2 then CHR ''2''
      else if d = 3 then CHR ''3'' else if d = 4 then CHR ''4'' else if d = 5 then CHR ''5''
      else if d = 6 then CHR ''6'' else if d = 7 then CHR ''7'' else if d = 8 then CHR ''8''
      else CHR ''9'')"

text \<open>The decimal rendering of a non-negative integer in an f-string.\<close>

fun show_nat :: "nat \<Rightarrow> string" where
  "show_nat n = (if n < 10 then [digit_char n] else show_nat (n div 10) @ [digit_char (n mod 10)])"

declare show_nat.simps [simp del]

definition show_int :: "int \<Rightarrow> string" where
  "show_int i = (if i < 0 then CHR ''-'' # show_nat (nat (- i)) else show_nat (nat i))"

subsection \<open>Exceptions, log records and requests\<close>

text \<open>
  \<open>TransportError\<close> stands for whatever \<^verbatim>\<open>client.get\<close> or
  \<^verbatim>\<open>response.raise_for_status()\<close> raises; it carries the text of \<^verbatim>\<open>str(e)\<close>.
\<close>

datatype py_exception = ValueError string | KeyError string | TransportError string

fun exc_str :: "py_exception \<Rightarrow> string" where
  "exc_str (ValueError m) = m"
| "exc_str (KeyError k) = [CHR 0x27] @ k @ [CHR 0x27]"
| "exc_str (TransportError m) = m"

datatype log_level = INFO | WARNING | ERROR

datatype event = HttpGet string | Log log_level string

subsection \<open>datetime\<close>

text \<open>
  A \<^verbatim>\<open>datetime\<close> without microseconds (no format of this program reads them);
  \<open>dt_utcoffset\<close> is the offset of an aware value in microseconds, \<open>None\<close> for a
  naive one.
\<close>

record datetime =
  dt_year :: int
  dt_month :: int
  dt_day :: int
  dt_hour :: int
  dt_minute :: int
  dt_second :: int
  dt_utcoffset :: "int option"

definition is_leap :: "int \<Rightarrow> bool" where
  "is_leap y = (y mod 4 = 0 \<and> (y mod 100 \<noteq> 0 \<or> y mod 400 = 0))"

definition days_in_month :: "int \<Rightarrow> int \<Rightarrow> int" where
  "days_in_month y m =
     (if m = 2 then (if is_leap y then 29 else 28)
      else if m = 4 \<or> m = 6 \<or> m = 9 \<or> m = 11 then 30 else 31)"

text \<open>
  The constructor \<^verbatim>\<open>datetime(year, month, day, hour, minute, second, tzinfo=...)\<close>: it
  raises \<^verbatim>\<open>ValueError\<close> on a field out of range. \<^verbatim>\<open>timezone(delta)\<close> raises unless the
  offset is strictly between minus and plus 24 hours.
\<close>

definition datetime_new ::
  "int \<Rightarrow> int \<Rightarrow> int \<Rightarrow> int \<Rightarrow> int \<Rightarrow> int \<Rightarrow> int option \<Rightarrow> py_exception + datetime" where
  "datetime_new y mo d h mi s tz =
     (if y < 1 \<or> 9999 < y then Inl (ValueError (''year '' @ show_int y @ '' is out of range''))
      else if mo < 1 \<or> 12 < mo then Inl (ValueError ''month must be in 1..12'')
      else if d < 1 \<or> days_in_month y mo < d then Inl (ValueError ''day is out of range for month'')
      else if h < 0 \<or> 23 < h then Inl (ValueError ''hour must be in 0..23'')
      else if mi < 0 \<or> 59 < mi then Inl (ValueError ''minute must be in 0..59'')
      else if s < 0 \<or> 59 < s then Inl (ValueError ''second must be in 0..59'')
      else (case tz of
              None \<Rightarrow> Inr \<lparr>dt_year = y, dt_month = mo, dt_day = d, dt_hour = h,
                           dt_minute = mi, dt_second = s, dt_utcoffset = None\<rparr>
            | Some off \<Rightarrow>
                if off \<le> - 86400000000 \<or> 86400000000 \<le> off
                then Inl (ValueError ''offset must be a timedelta strictly between -timedelta(hours=24) and timedelta(hours=24)'')
                else Inr \<lparr>dt_year = y, dt_month = mo, dt_day = d, dt_hour = h,
                          dt_minute = mi, dt_second = s, dt_utcoffset = Some off\<rparr>))"

text \<open>\<^verbatim>\<open>datetime.min\<close>\<close>

definition datetime_min :: datetime where
  "datetime_min = \<lparr>dt_year = 1, dt_month = 1, dt_day = 1, dt_hour = 0,
                    dt_minute = 0, dt_second = 0, dt_utcoffset = None\<rparr>"

text \<open>Naive values compare field by field, the year first.\<close>

definition datetime_key :: "datetime \<Rightarrow> int \<times> int \<times> int \<times> int \<times> int \<times> int" where
  "datetime_key t = (dt_year t, dt_month t, dt_day t, dt_hour t, dt_minute t, dt_second t)"

subsection \<open>Data model (models.py)\<close>

record blog_post =
  bp_title :: string
  bp_url :: string
  bp_summary :: "string option"
  bp_author :: "string option"
  bp_published_date :: "datetime option"
  bp_category :: "string option"
  bp_tags :: "string list option"

text \<open>
  \<open>relevance_score\<close> is an optional float in the source; the only values ever stored
  are the integers that the scoring computes.
\<close>

record search_result =
  sr_title :: string
  sr_url :: string
  sr_summary :: "string option"
  sr_published_date :: "datetime option"
  sr_category :: "string option"
  sr_relevance_score :: "int option"

subsection \<open>The category registry (utils.py)\<close>

record category_info =
  ci_name :: string
  ci_url :: string
  ci_rss :: string

text \<open>A dict keeps its insertion order: the registry is an association list.\<close>

definition AWS_BLOG_CATEGORIES :: "(string \<times> category_info) list" where
  "AWS_BLOG_CATEGORIES =
   [(''aws'', \<lparr>ci_name = ''AWS News Blog'',
       ci_url = ''https://aws.amazon.com/blogs/aws/'',
       ci_rss = ''https://aws.amazon.com/blogs/aws/feed/''\<rparr>),
    (''architecture'', \<lparr>ci_name = ''AWS Architecture Blog'',
       ci_url = ''https://aws.amazon.com/blogs/architecture/'',
       ci_rss = ''https://aws.amazon.com/blogs/architecture/feed/''\<rparr>),
    (''compute'', \<lparr>ci_name = ''AWS Compute Blog'',
       ci_url = ''https://aws.amazon.com/blogs/compute/'',
       ci_rss = ''https://aws.amazon.com/blogs/compute/feed/''\<rparr>),
    (''containers'', \<lparr>ci_name = ''Containers'',
       ci_url = ''https://aws.amazon.com/blogs/containers/'',
       ci_rss = ''https://aws.amazon.com/blogs/containers/feed/''\<rparr>),
    (''database'', \<lparr>ci_name = ''Database'',
       ci_url = ''https://aws.amazon.com/blogs/database/'',
       ci_rss = ''https://aws.amazon.com/blogs/database/feed/''\<rparr>),
    (''developer'', \<lparr>ci_name = ''AWS Developer Tools Blog'',
       ci_url = ''https://aws.amazon.com/blogs/developer/'',
       ci_rss = ''https://aws.amazon.com/blogs/developer/feed/''\<rparr>),
    (''devops'', \<lparr>ci_name = ''AWS DevOps Blog'',
       ci_url = ''https://aws.amazon.com/blogs/devops/'',
       ci_rss = ''https://aws.amazon.com/blogs/devops/feed/''\<rparr>),
    (''machine-learning'', \<lparr>ci_name = ''AWS Machine Learning Blog'',
       ci_url = ''https://aws.amazon.com/blogs/machine-learning/'',
       ci_rss = ''https://aws.amazon.com/blogs/machine-learning/feed/''\<rparr>),
    (''networking-and-content-delivery'', \<lparr>ci_name = ''Networking & Content Delivery'',
       ci_url = ''https://aws.amazon.com/blogs/networking-and-content-delivery/'',
       ci_rss = ''https://aws.amazon.com/blogs/networking-and-content-delivery/feed/''\<rparr>),
    (''security'', \<lparr>ci_name = ''AWS Security Blog'',
       ci_url = ''https://aws.amazon.com/blogs/security/'',
       ci_rss = ''https://aws.amazon.com/blogs/security/feed/''\<rparr>),
    (''storage'', \<lparr>ci_name = ''AWS Storage Blog'',
       ci_url = ''https://aws.amazon.com/blogs/storage/'',
       ci_rss = ''https://aws.amazon.com/blogs/storage/feed/''\<rparr>)]"

text \<open>\<^verbatim>\<open>category and category in AWS_BLOG_CATEGORIES\<close>, for an optional category.\<close>

definition known_category :: "string option \<Rightarrow> category_info option" where
  "known_category category =
     (case category of
        None \<Rightarrow> None
      | Some c \<Rightarrow> if c = [] then None else map_of AWS_BLOG_CATEGORIES c)"

subsection \<open>Feeds\<close>

text \<open>
  An entry as \<^verbatim>\<open>feedparser\<close> gives it: each field may be missing;
  \<open>fe_published_parsed\<close> holds the first six fields of the \<^verbatim>\<open>struct_time\<close>.
\<close>

record feed_entry =
  fe_title :: "string option"
  fe_link :: "string option"
  fe_summary :: "string option"
  fe_author :: "string option"
  fe_published_parsed :: "(int \<times> int \<times> int \<times> int \<times> int \<times> int) option"

text \<open>
  The outside world: for a feed URL, either the exception of the request or the entries
  that \<^verbatim>\<open>feedparser.parse(response.text)\<close> yields.
\<close>

type_synonym feed_env = "string \<Rightarrow> py_exception + feed_entry list"

text \<open>\<^verbatim>\<open>entry.get(key, '')\<close>\<close>

definition get_or_empty :: "string option \<Rightarrow> string" where
  "get_or_empty v = (case v of None \<Rightarrow> [] | Some s \<Rightarrow> s)"

text \<open>
  \<^verbatim>\<open>datetime(*entry.published_parsed[:6])\<close> when the field is there, else \<^verbatim>\<open>None\<close>.
  The value then goes through \<^verbatim>\<open>isoformat()\<close> and back through the model's field
  validation, which returns the same naive value.
\<close>

definition entry_published :: "feed_entry \<Rightarrow> py_exception + datetime option" where
  "entry_published entry =
     (case fe_published_parsed entry of
        None \<Rightarrow> Inr None
      | Some (y, mo, d, h, mi, s) \<Rightarrow>
          (case datetime_new y mo d h mi s None of
             Inl exn \<Rightarrow> Inl exn
           | Inr t \<Rightarrow> Inr (Some t)))"

subsection \<open>\<^verbatim>\<open>sorted(xs, key=..., reverse=True)\<close>\<close>

text \<open>
  The sort is stable also with \<^verbatim>\<open>reverse=True\<close>: elements with equal keys keep
  their order. An element goes in front of the first one whose key is not greater.
\<close>

fun insort_desc :: "('a \<Rightarrow> 'k::linorder) \<Rightarrow> 'a \<Rightarrow> 'a list \<Rightarrow> 'a list" where
  "insort_desc key x [] = [x]"
| "insort_desc key x (y # ys) =
     (if key y \<le> key x then x # y # ys else y # insort_desc key x ys)"

definition sorted_reverse :: "('a \<Rightarrow> 'k::linorder) \<Rightarrow> 'a list \<Rightarrow> 'a list" where
  "sorted_reverse key xs = foldr (insort_desc key) xs []"

subsection \<open>Search (server.py)\<close>

text \<open>The relevance of an entry for the lower-cased query.\<close>

definition relevance :: "string \<Rightarrow> string \<Rightarrow> string \<Rightarrow> int" where
  "relevance query_lower title summary =
     (if str_in query_lower (str_lower title) then 2 else 0) +
     (if str_in query_lower (str_lower summary) then 1 else 0)"

text \<open>The loop of \<^verbatim>\<open>_search_rss_feed\<close> over the entries; an exception ends it.\<close>

fun search_entries :: "string \<Rightarrow> feed_entry list \<Rightarrow> py_exception + search_result list" where
  "search_entries query_lower [] = Inr []"
| "search_entries query_lower (entry # rest) =
     (let title = get_or_empty (fe_title entry);
          summary = get_or_empty (fe_summary entry);
          relevance_score = relevance query_lower title summary
      in if relevance_score > 0 then
           (case entry_published entry of
              Inl exn \<Rightarrow> Inl exn
            | Inr published_date \<Rightarrow>
                (case search_entries query_lower rest of
                   Inl exn \<Rightarrow> Inl exn
                 | Inr results \<Rightarrow>
                     Inr (\<lparr>sr_title = title, sr_url = get_or_empty (fe_link entry),
                           sr_summary = Some summary, sr_published_date = published_date,
                           sr_category = None,
                           sr_relevance_score = Some relevance_score\<rparr> # results)))
         else search_entries query_lower rest)"

text \<open>The body of the \<^verbatim>\<open>try\<close> block of \<^verbatim>\<open>_search_rss_feed\<close>.\<close>

definition search_rss_feed_try ::
  "feed_env \<Rightarrow> string \<Rightarrow> string \<Rightarrow> nat \<Rightarrow> py_exception + search_result list" where
  "search_rss_feed_try env rss_url query limit =
     (case env rss_url of
        Inl exn \<Rightarrow> Inl exn
      | Inr entries \<Rightarrow>
          (case search_entries (str_lower query) (take (limit * 2) entries) of
             Inl exn \<Rightarrow> Inl exn
           | Inr results \<Rightarrow> Inr (take limit results)))"

text \<open>
  \<^verbatim>\<open>_search_rss_feed(rss_url, query, limit)\<close>: any exception of the body is logged
  and becomes the empty list.
\<close>

definition search_rss_feed ::
  "feed_env \<Rightarrow> string \<Rightarrow> string \<Rightarrow> nat \<Rightarrow> search_result list \<times> event list" where
  "search_rss_feed env rss_url query limit =
     (case search_rss_feed_try env rss_url query limit of
        Inl exn \<Rightarrow>
          ([], [HttpGet rss_url,
                Log ERROR (''Error searching RSS feed '' @ rss_url @ '': '' @ exc_str exn)])
      | Inr results \<Rightarrow> (results, [HttpGet rss_url]))"

text \<open>
  The loop of \<^verbatim>\<open>search_blog_posts\<close> over the categories to search; a failing lookup
  is logged and skipped.
\<close>

fun search_categories ::
  "feed_env \<Rightarrow> string \<Rightarrow> nat \<Rightarrow> string list \<Rightarrow> search_result list \<times> event list" where
  "search_categories env query per_limit [] = ([], [])"
| "search_categories env query per_limit (cat # cats) =
     (case map_of AWS_BLOG_CATEGORIES cat of
        None \<Rightarrow>
          (let (results, events) = search_categories env query per_limit cats
           in (results,
               Log WARNING (''Error searching category '' @ cat @ '': '' @ exc_str (KeyError cat))
                 # events))
      | Some info \<Rightarrow>
          (let (feed_results, feed_events) = search_rss_feed env (ci_rss info) query per_limit;
               (results, events) = search_categories env query per_limit cats
           in (feed_results @ results, feed_events @ events)))"

text \<open>\<^verbatim>\<open>x.relevance_score or 0\<close>\<close>

definition relevance_key :: "search_result \<Rightarrow> int" where
  "relevance_key x = (case sr_relevance_score x of None \<Rightarrow> 0 | Some s \<Rightarrow> s)"

definition show_category :: "string option \<Rightarrow> string" where
  "show_category category = (case category of None \<Rightarrow> ''None'' | Some c \<Rightarrow> c)"

definition search_blog_posts ::
  "feed_env \<Rightarrow> string \<Rightarrow> string option \<Rightarrow> nat \<Rightarrow> search_result list \<times> event list" where
  "search_blog_posts env query category limit =
     (let started = Log INFO (''Searching blog posts: query=\"'' @ query @ ''\", category=\"''
                               @ show_category category @ ''\"'');
          (results, events) =
            (case known_category category of
               Some info \<Rightarrow> search_rss_feed env (ci_rss info) query limit
             | None \<Rightarrow>
                 (let categories_to_search = map fst AWS_BLOG_CATEGORIES
                  in search_categories env query
                       (limit div length categories_to_search + 1)
                       (take 5 categories_to_search)))
      in (take limit (sorted_reverse relevance_key results), started # events))"

subsection \<open>Listing posts (server.py)\<close>

text \<open>
  The category name that \<^verbatim>\<open>_get_posts_from_rss\<close> finds for a feed URL: the name of
  the first registry entry with that \<^verbatim>\<open>rss\<close>.
\<close>

definition rss_category :: "string \<Rightarrow> string option" where
  "rss_category rss_url =
     (case find (\<lambda>(cat_slug, cat_info). ci_rss cat_info = rss_url) AWS_BLOG_CATEGORIES of
        None \<Rightarrow> None
      | Some (cat_slug, cat_info) \<Rightarrow> Some (ci_name cat_info))"

text \<open>The loop of \<^verbatim>\<open>_get_posts_from_rss\<close> over the entries.\<close>

fun posts_of_entries :: "string \<Rightarrow> feed_entry list \<Rightarrow> py_exception + blog_post list" where
  "posts_of_entries rss_url [] = Inr []"
| "posts_of_entries rss_url (entry # rest) =
     (case entry_published entry of
        Inl exn \<Rightarrow> Inl exn
      | Inr published_date \<Rightarrow>
          (case posts_of_entries rss_url rest of
             Inl exn \<Rightarrow> Inl exn
           | Inr posts \<Rightarrow>
               Inr (\<lparr>bp_title = get_or_empty (fe_title entry),
                     bp_url = get_or_empty (fe_link entry),
                     bp_summary = Some (get_or_empty (fe_summary entry)),
                     bp_author = Some (get_or_empty (fe_author entry)),
                     bp_published_date = published_date,
                     bp_category = rss_category rss_url,
                     bp_tags = None\<rparr> # posts)))"

text \<open>The body of the \<^verbatim>\<open>try\<close> block of \<^verbatim>\<open>_get_posts_from_rss\<close>.\<close>

definition get_posts_from_rss_try ::
  "feed_env \<Rightarrow> string \<Rightarrow> nat \<Rightarrow> py_exception + blog_post list" where
  "get_posts_from_rss_try env rss_url limit =
     (case env rss_url of
        Inl exn \<Rightarrow> Inl exn
      | Inr entries \<Rightarrow> posts_of_entries rss_url (take limit entries))"

text \<open>
  \<^verbatim>\<open>_get_posts_from_rss(rss_url, limit)\<close>: any exception of the body is logged and
  becomes the empty list.
\<close>

definition get_posts_from_rss ::
  "feed_env \<Rightarrow> string \<Rightarrow> nat \<Rightarrow> blog_post list \<times> event list" where
  "get_posts_from_rss env rss_url limit =
     (case get_posts_from_rss_try env rss_url limit of
        Inl exn \<Rightarrow>
          ([], [HttpGet rss_url,
                Log ERROR (''Error getting posts from RSS feed '' @ rss_url @ '': ''
                           @ exc_str exn)])
      | Inr posts \<Rightarrow> (posts, [HttpGet rss_url]))"

text \<open>The loop of \<^verbatim>\<open>get_recent_posts\<close> over the selected registry items.\<close>

fun recent_categories ::
  "feed_env \<Rightarrow> nat \<Rightarrow> (string \<times> category_info) list \<Rightarrow> blog_post list \<times> event list" where
  "recent_categories env per_limit [] = ([], [])"
| "recent_categories env per_limit ((cat_slug, cat_info) # items) =
     (let (category_posts, feed_events) = get_posts_from_rss env (ci_rss cat_info) per_limit;
          (posts, events) = recent_categories env per_limit items
      in (category_posts @ posts, feed_events @ events))"

text \<open>
  \<^verbatim>\<open>x.published_date or datetime.min\<close>, compared as naive values are (every post
  built from a feed is naive).
\<close>

definition published_key :: "blog_post \<Rightarrow> int \<times> int \<times> int \<times> int \<times> int \<times> int" where
  "published_key x =
     (case bp_published_date x of None \<Rightarrow> datetime_key datetime_min | Some t \<Rightarrow> datetime_key t)"

definition show_limit_log :: "string option \<Rightarrow> nat \<Rightarrow> string" where
  "show_limit_log category limit =
     ''Getting recent posts: category=\"'' @ show_category category @ ''\", limit='' @ show_nat limit"

definition get_recent_posts ::
  "feed_env \<Rightarrow> string option \<Rightarrow> nat \<Rightarrow> blog_post list \<times> event list" where
  "get_recent_posts env category limit =
     (let started = Log INFO (show_limit_log category limit);
          (posts, events) =
            (case known_category category of
               Some info \<Rightarrow> get_posts_from_rss env (ci_rss info) limit
             | None \<Rightarrow> recent_categories env (limit div 5 + 1) (take 5 AWS_BLOG_CATEGORIES))
      in (take limit (sorted_reverse published_key posts), started # events))"

text \<open>\<^verbatim>\<open>get_rss_feed(ctx, category, limit)\<close>: the category is required.\<close>

definition get_rss_feed ::
  "feed_env \<Rightarrow> string \<Rightarrow> nat \<Rightarrow> blog_post list \<times> event list" where
  "get_rss_feed env category limit =
     (case map_of AWS_BLOG_CATEGORIES category of
        None \<Rightarrow>
          ([], [Log ERROR (''Error getting RSS feed for '' @ category @ '': ''
                           @ exc_str (ValueError (''Unknown category: '' @ category
                               @ ''. Use list_blog_categories to see available options.'')))])
      | Some info \<Rightarrow>
          (let started = Log INFO (''Getting RSS feed for category: '' @ category);
               (posts, events) = get_posts_from_rss env (ci_rss info) limit
           in (posts, started # events)))"

subsection \<open>Reading a post (server.py)\<close>

text \<open>
  What \<^verbatim>\<open>extract_blog_metadata\<close> found in the page. A key that is missing and a key
  whose value is \<^verbatim>\<open>None\<close> are both \<open>None\<close> here; \<^verbatim>\<open>metadata.get\<close> treats them
  alike for every field but the title, whose value is never \<^verbatim>\<open>None\<close>.
\<close>

record metadata =
  md_title :: "string option"
  md_author :: "string option"
  md_published_date :: "datetime option"
  md_category :: "string option"

definition pad2 :: "int \<Rightarrow> string" where
  "pad2 i = (if i < 10 then CHR ''0'' # show_int i else show_int i)"

definition pad4 :: "int \<Rightarrow> string" where
  "pad4 i = (if i < 10 then ''000'' @ show_int i else if i < 100 then ''00'' @ show_int i
             else if i < 1000 then CHR ''0'' # show_int i else show_int i)"

definition pad6 :: "int \<Rightarrow> string" where
  "pad6 i = replicate (6 - length (show_int i)) (CHR ''0'') @ show_int i"

text \<open>The offset part of \<^verbatim>\<open>str(t)\<close> for an aware value, from its microseconds.\<close>

definition show_utcoffset :: "int \<Rightarrow> string" where
  "show_utcoffset off =
     (let a = \<bar>off\<bar>;
          hh = a div 3600000000;
          mm = (a mod 3600000000) div 60000000;
          ss = (a mod 60000000) div 1000000;
          us = a mod 1000000
      in (if off < 0 then ''-'' else ''+'') @ pad2 hh @ '':'' @ pad2 mm
         @ (if ss \<noteq> 0 \<or> us \<noteq> 0 then '':'' @ pad2 ss else [])
         @ (if us \<noteq> 0 then ''.'' @ pad6 us else []))"

text \<open>\<^verbatim>\<open>str(t)\<close> for a datetime, as an f-string formats it.\<close>

definition datetime_str :: "datetime \<Rightarrow> string" where
  "datetime_str t =
     pad4 (dt_year t) @ ''-'' @ pad2 (dt_month t) @ ''-'' @ pad2 (dt_day t) @ '' ''
     @ pad2 (dt_hour t) @ '':'' @ pad2 (dt_minute t) @ '':'' @ pad2 (dt_second t)
     @ (case dt_utcoffset t of None \<Rightarrow> [] | Some off \<Rightarrow> show_utcoffset off)"

text \<open>The header that \<^verbatim>\<open>read_blog_post\<close> puts before the markdown.\<close>

definition metadata_header :: "metadata \<Rightarrow> string \<Rightarrow> string" where
  "metadata_header md url =
     ''# '' @ (case md_title md of None \<Rightarrow> ''AWS Blog Post'' | Some t \<Rightarrow> t) @ [CHR 0x0A, CHR 0x0A]
     @ (case md_author md of
          None \<Rightarrow> []
        | Some a \<Rightarrow> if a = [] then [] else ''**Author:** '' @ a @ [CHR 0x0A])
     @ (case md_published_date md of
          None \<Rightarrow> []
        | Some t \<Rightarrow> ''**Published:** '' @ datetime_str t @ [CHR 0x0A])
     @ (case md_category md of
          None \<Rightarrow> []
        | Some c \<Rightarrow> if c = [] then [] else ''**Category:** '' @ c @ [CHR 0x0A])
     @ ''**URL:** '' @ url @ [CHR 0x0A, CHR 0x0A] @ ''---'' @ [CHR 0x0A, CHR 0x0A]"

definition full_content :: "metadata \<Rightarrow> string \<Rightarrow> string \<Rightarrow> string" where
  "full_content md url markdown_content = metadata_header md url @ markdown_content"

text \<open>The notice appended to a truncated chunk.\<close>

definition continuation_marker :: "nat \<Rightarrow> string" where
  "continuation_marker end_index =
     [CHR 0x0A, CHR 0x0A] @ ''[Content truncated. Use start_index='' @ show_nat end_index
     @ '' to continue reading.]''"

text \<open>The pagination of \<^verbatim>\<open>read_blog_post\<close> on the assembled text.\<close>

definition paginate :: "string \<Rightarrow> nat \<Rightarrow> nat \<Rightarrow> string" where
  "paginate content start_index max_length =
     (if start_index \<ge> length content then ''No more content available.''
      else
        (let end_index = start_index + max_length;
             result = take (end_index - start_index) (drop start_index content)
         in if end_index < length content then result @ continuation_marker end_index
            else result))"

text \<open>
  \<^verbatim>\<open>read_blog_post(ctx, url, max_length, start_index)\<close>. The page is the outcome of
  \<^verbatim>\<open>fetch_url_content\<close>, which logs and re-raises; \<open>extract\<close> and \<open>clean\<close> stand for
  \<^verbatim>\<open>extract_blog_metadata\<close> and \<^verbatim>\<open>clean_html_content\<close>, which work on the parsed
  document and never raise.
\<close>

definition read_blog_post ::
  "(string \<Rightarrow> py_exception + string) \<Rightarrow> (string \<Rightarrow> string \<Rightarrow> metadata) \<Rightarrow> (string \<Rightarrow> string)
     \<Rightarrow> string \<Rightarrow> nat \<Rightarrow> nat \<Rightarrow> string \<times> event list" where
  "read_blog_post fetch extract clean url max_length start_index =
     (if \<not> startswith url ''https://aws.amazon.com/blogs/'' then
        (let exn = ValueError ''URL must be from aws.amazon.com/blogs domain''
         in (''Error reading blog post: '' @ exc_str exn,
             [Log ERROR (''Error reading blog post '' @ url @ '': '' @ exc_str exn)]))
      else
        (let started = Log INFO (''Fetching blog post: '' @ url)
         in case fetch url of
              Inl exn \<Rightarrow>
                (''Error reading blog post: '' @ exc_str exn,
                 [started, HttpGet url,
                  Log ERROR (''Error fetching URL '' @ url @ '': '' @ exc_str exn),
                  Log ERROR (''Error reading blog post '' @ url @ '': '' @ exc_str exn)])
            | Inr html_content \<Rightarrow>
                (paginate (full_content (extract html_content url) url (clean html_content))
                   start_index max_length,
                 [started, HttpGet url])))"

subsection \<open>\<^verbatim>\<open>datetime.strptime\<close> for the formats of the program\<close>

text \<open>
  \<^verbatim>\<open>strptime\<close> turns the format into a regular expression, matches it against the
  text ignoring case, requires that the match consumes the whole text, and converts the
  groups. The model follows CPython's \<^verbatim>\<open>_strptime.py\<close> in the C locale for the
  directives that the formats of \<^verbatim>\<open>parse_date_string\<close> use.
\<close>

text \<open>Whitespace as \<^verbatim>\<open>str.strip\<close> and \<^verbatim>\<open>\s\<close> see it.\<close>

definition is_space :: "char \<Rightarrow> bool" where
  "is_space c = (c \<in> set [CHR 0x09, CHR 0x0A, CHR 0x0B, CHR 0x0C, CHR 0x0D,
                            CHR 0x1C, CHR 0x1D, CHR 0x1E, CHR 0x1F, CHR 0x20,
                            CHR 0x85, CHR 0xA0])"

text \<open>\<^verbatim>\<open>s.strip()\<close>\<close>

definition strip :: "string \<Rightarrow> string" where
  "strip s = dropWhile is_space (rev (dropWhile is_space (rev s)))"

definition digits :: string where
  "digits = ''0123456789''"

definition digit_val :: "char \<Rightarrow> int" where
  "digit_val c = (case map_of (zip digits [0, 1, 2, 3, 4, 5, 6, 7, 8, 9]) c of
                    Some v \<Rightarrow> v | None \<Rightarrow> 0)"

text \<open>\<^verbatim>\<open>int(s)\<close> on the texts that the groups can hold: blanks around decimal digits.\<close>

definition py_int :: "string \<Rightarrow> py_exception + int" where
  "py_int s =
     (let t = strip s
      in if t \<noteq> [] \<and> list_all (\<lambda>c. c \<in> set digits) t
         then Inr (foldl (\<lambda>a c. 10 * a + digit_val c) 0 t)
         else Inl (ValueError (''invalid literal for int() with base 10: '' @ [CHR 0x27] @ s @ [CHR 0x27])))"

text \<open>
  The regular expressions that the directives expand to. An alternative and an optional
  part are tried in the order in which a backtracking matcher tries them.
\<close>

datatype re =
    Eps
  | Lit char
  | LitCS char
  | OneOf string
  | Spaces
  | Seq re re
  | Alt re re
  | Opt re
  | Group char re

type_synonym re_state = "(char \<times> string) list \<times> string"

text \<open>
  All ways in which a regular expression matches a prefix of the text, the preferred one
  first; each way gives the groups found and the text that is left.
\<close>

fun re_match :: "re \<Rightarrow> re_state \<Rightarrow> re_state list" where
  "re_match Eps st = [st]"
| "re_match (Lit c) (gs, s) =
     (case s of [] \<Rightarrow> [] | x # xs \<Rightarrow> if lower_char x = lower_char c then [(gs, xs)] else [])"
| "re_match (LitCS c) (gs, s) =
     (case s of [] \<Rightarrow> [] | x # xs \<Rightarrow> if x = c then [(gs, xs)] else [])"
| "re_match (OneOf cs) (gs, s) =
     (case s of [] \<Rightarrow> [] | x # xs \<Rightarrow> if x \<in> set cs then [(gs, xs)] else [])"
| "re_match Spaces (gs, s) =
     map (\<lambda>k. (gs, drop k s)) (rev [1 ..< Suc (length (takeWhile is_space s))])"
| "re_match (Seq a b) st = concat (map (re_match b) (re_match a st))"
| "re_match (Alt a b) st = re_match a st @ re_match b st"
| "re_match (Opt a) st = re_match a st @ [st]"
| "re_match (Group g a) (gs, s) =
     map (\<lambda>(gs', s'). (gs' @ [(g, take (length s - length s') s)], s')) (re_match a (gs, s))"

fun re_match_seq :: "re list \<Rightarrow> re_state \<Rightarrow> re_state list" where
  "re_match_seq [] st = [st]"
| "re_match_seq (r # rs) st = concat (map (re_match_seq rs) (re_match r st))"

fun seqs :: "re list \<Rightarrow> re" where
  "seqs [] = Eps"
| "seqs [r] = r"
| "seqs (r # rs) = Seq r (seqs rs)"

fun alts :: "re list \<Rightarrow> re" where
  "alts [] = Eps"
| "alts [r] = r"
| "alts (r # rs) = Alt r (alts rs)"

definition Digit :: re where
  "Digit = OneOf digits"

definition word :: "string \<Rightarrow> re" where
  "word w = seqs (map Lit w)"

definition f_month :: "string list" where
  "f_month = [[], ''january'', ''february'', ''march'', ''april'', ''may'', ''june'', ''july'',
              ''august'', ''september'', ''october'', ''november'', ''december'']"

definition a_month :: "string list" where
  "a_month = [[], ''jan'', ''feb'', ''mar'', ''apr'', ''may'', ''jun'', ''jul'',
              ''aug'', ''sep'', ''oct'', ''nov'', ''dec'']"

text \<open>\<^verbatim>\<open>__seqToRE\<close>: the names, the longest first.\<close>

definition seqToRE :: "string list \<Rightarrow> char \<Rightarrow> re" where
  "seqToRE to_convert directive =
     Group directive (alts (map word (sorted_reverse length to_convert)))"

text \<open>The expansion of a directive; \<open>None\<close> for one that no format here uses.\<close>

definition directive_re :: "char \<Rightarrow> re option" where
  "directive_re d =
     (if d = CHR ''d'' then
        Some (Group d (alts [Seq (OneOf ''3'') (OneOf ''01''), Seq (OneOf ''12'') Digit,
                             Seq (OneOf ''0'') (OneOf ''123456789''), OneOf ''123456789'',
                             Seq (Lit (CHR '' '')) (OneOf ''123456789'')]))
      else if d = CHR ''H'' then
        Some (Group d (alts [Seq (OneOf ''2'') (OneOf ''0123''), Seq (OneOf ''01'') Digit, Digit]))
      else if d = CHR ''m'' then
        Some (Group d (alts [Seq (OneOf ''1'') (OneOf ''012''),
                             Seq (OneOf ''0'') (OneOf ''123456789''), OneOf ''123456789'']))
      else if d = CHR ''M'' then
        Some (Group d (alts [Seq (OneOf ''012345'') Digit, Digit]))
      else if d = CHR ''S'' then
        Some (Group d (alts [Seq (OneOf ''6'') (OneOf ''01''), Seq (OneOf ''012345'') Digit, Digit]))
      else if d = CHR ''Y'' then
        Some (Group d (seqs [Digit, Digit, Digit, Digit]))
      else if d = CHR ''z'' then
        Some (Group d (Alt
          (seqs [OneOf ''+-'', Digit, Digit, Opt (Lit (CHR '':'')), OneOf ''012345'', Digit,
                 Opt (seqs [Opt (Lit (CHR '':'')), OneOf ''012345'', Digit,
                   Opt (seqs [Lit (CHR ''.''), Digit,
                     Opt (Seq Digit (Opt (Seq Digit (Opt (Seq Digit
                       (Opt (Seq Digit (Opt Digit))))))))])])])
          (LitCS (CHR ''Z''))))
      else if d = CHR ''B'' then Some (seqToRE (tl f_month) d)
      else if d = CHR ''b'' then Some (seqToRE (tl a_month) d)
      else if d = CHR ''%'' then Some (Lit (CHR ''%''))
      else None)"

text \<open>
  \<^verbatim>\<open>TimeRE.pattern\<close>: a run of whitespace in the format stands for \<^verbatim>\<open>\s+\<close>, a
  directive for its expression, any other character for itself.
\<close>

function pattern :: "string \<Rightarrow> py_exception + re list" where
  "pattern [] = Inr []"
| "pattern (c # cs) =
     (if c = CHR ''%'' then
        (case cs of
           [] \<Rightarrow> Inl (ValueError ''stray % in format'')
         | d # ds \<Rightarrow>
             (case directive_re d of
                None \<Rightarrow> Inl (ValueError ([CHR 0x27] @ [d] @ [CHR 0x27] @ '' is a bad directive in format''))
              | Some r \<Rightarrow>
                  (case pattern ds of Inl exn \<Rightarrow> Inl exn | Inr rs \<Rightarrow> Inr (r # rs))))
      else if is_space c then
        (case pattern (dropWhile is_space cs) of Inl exn \<Rightarrow> Inl exn | Inr rs \<Rightarrow> Inr (Spaces # rs))
      else
        (case pattern cs of Inl exn \<Rightarrow> Inl exn | Inr rs \<Rightarrow> Inr (Lit c # rs)))"
  by pat_completeness auto
termination
  by (relation "measure length") (auto simp: length_dropWhile_le less_Suc_eq_le)

text \<open>The text of a group, if the match has it.\<close>

definition group_of :: "(char \<times> string) list \<Rightarrow> char \<Rightarrow> string option" where
  "group_of gs g = map_of gs g"

text \<open>A numeric group, or its default when the format has no such directive.\<close>

definition int_group :: "(char \<times> string) list \<Rightarrow> char \<Rightarrow> int \<Rightarrow> py_exception + int" where
  "int_group gs g dflt = (case group_of gs g of None \<Rightarrow> Inr dflt | Some t \<Rightarrow> py_int t)"

text \<open>\<^verbatim>\<open>names.index(t)\<close>, which raises \<^verbatim>\<open>ValueError\<close> when the text is not there.\<close>

fun index_of :: "string list \<Rightarrow> string \<Rightarrow> py_exception + int" where
  "index_of [] t = Inl (ValueError ([CHR 0x27] @ t @ [CHR 0x27] @ '' is not in list''))"
| "index_of (n # ns) t =
     (if n = t then Inr 0
      else (case index_of ns t of Inl exn \<Rightarrow> Inl exn | Inr i \<Rightarrow> Inr (i + 1)))"

text \<open>The month: from \<^verbatim>\<open>%B\<close> or \<^verbatim>\<open>%b\<close> when present, else from \<^verbatim>\<open>%m\<close>, else 1.\<close>

definition month_group :: "(char \<times> string) list \<Rightarrow> py_exception + int" where
  "month_group gs =
     (case group_of gs (CHR ''B'') of
        Some t \<Rightarrow> index_of f_month (str_lower t)
      | None \<Rightarrow>
          (case group_of gs (CHR ''b'') of
             Some t \<Rightarrow> index_of a_month (str_lower t)
           | None \<Rightarrow> int_group gs (CHR ''m'') 1))"

text \<open>
  The offset of a \<^verbatim>\<open>%z\<close> group in microseconds: the colons are taken out as the
  source does, and an inconsistent use of them raises.
\<close>

definition gmtoff_of :: "string \<Rightarrow> py_exception + int" where
  "gmtoff_of z0 =
     (if z0 = ''Z'' then Inr 0
      else
        (let colon1 = (take 1 (drop 3 z0) = '':'');
             z1 = (if colon1 then take 3 z0 @ drop 4 z0 else z0);
             bad = (colon1 \<and> length z1 > 5 \<and> take 1 (drop 5 z1) \<noteq> '':'');
             z = (if colon1 \<and> length z1 > 5 then take 5 z1 @ drop 6 z1 else z1);
             secs = take 2 (drop 5 z);
             gmtoff_remainder = drop 8 z
         in if bad then Inl (ValueError (''Inconsistent use of : in '' @ z0))
            else
              (case py_int (take 2 (drop 1 z)) of
                 Inl exn \<Rightarrow> Inl exn
               | Inr hours \<Rightarrow>
                   (case py_int (take 2 (drop 3 z)) of
                      Inl exn \<Rightarrow> Inl exn
                    | Inr minutes \<Rightarrow>
                        (case (if secs = [] then Inr 0 else py_int secs) of
                           Inl exn \<Rightarrow> Inl exn
                         | Inr seconds \<Rightarrow>
                             (case py_int (gmtoff_remainder
                                     @ replicate (6 - length gmtoff_remainder) (CHR ''0'')) of
                                Inl exn \<Rightarrow> Inl exn
                              | Inr gmtoff_fraction \<Rightarrow>
                                  (let gmtoff = hours * 60 * 60 + minutes * 60 + seconds;
                                       total = gmtoff * 1000000 + gmtoff_fraction
                                   in Inr (if startswith z ''-'' then - total else total))))))))"

text \<open>The conversion of the groups of a match into a datetime.\<close>

definition convert_groups :: "(char \<times> string) list \<Rightarrow> py_exception + datetime" where
  "convert_groups gs =
     (case int_group gs (CHR ''Y'') 1900 of Inl exn \<Rightarrow> Inl exn | Inr year \<Rightarrow>
      (case month_group gs of Inl exn \<Rightarrow> Inl exn | Inr month \<Rightarrow>
       (case int_group gs (CHR ''d'') 1 of Inl exn \<Rightarrow> Inl exn | Inr day \<Rightarrow>
        (case int_group gs (CHR ''H'') 0 of Inl exn \<Rightarrow> Inl exn | Inr hour \<Rightarrow>
         (case int_group gs (CHR ''M'') 0 of Inl exn \<Rightarrow> Inl exn | Inr minute \<Rightarrow>
          (case int_group gs (CHR ''S'') 0 of Inl exn \<Rightarrow> Inl exn | Inr second \<Rightarrow>
           (case group_of gs (CHR ''z'') of
              None \<Rightarrow> datetime_new year month day hour minute second None
            | Some z \<Rightarrow>
                (case gmtoff_of z of
                   Inl exn \<Rightarrow> Inl exn
                 | Inr off \<Rightarrow> datetime_new year month day hour minute second (Some off)))))))))"

text \<open>\<^verbatim>\<open>datetime.strptime(data_string, format)\<close>\<close>

definition strptime :: "string \<Rightarrow> string \<Rightarrow> py_exception + datetime" where
  "strptime data_string format =
     (case pattern format of
        Inl exn \<Rightarrow> Inl exn
      | Inr rs \<Rightarrow>
          (case re_match_seq rs ([], data_string) of
             [] \<Rightarrow> Inl (ValueError (''time data '' @ data_string @ '' does not match format '' @ format))
           | (gs, rest) # others \<Rightarrow>
               if rest \<noteq> [] then Inl (ValueError (''unconverted data remains: '' @ rest))
               else convert_groups gs))"

subsection \<open>\<^verbatim>\<open>parse_date_string\<close> (utils.py)\<close>

definition formats :: "string list" where
  "formats = [''%Y-%m-%dT%H:%M:%S%z'', ''%Y-%m-%d %H:%M:%S'', ''%Y-%m-%d'', ''%B %d, %Y'',
              ''%b %d, %Y'', ''%d %B %Y'', ''%d %b %Y'']"

text \<open>The loop over the formats: only a \<^verbatim>\<open>ValueError\<close> moves on to the next one.\<close>

fun try_formats :: "string \<Rightarrow> string list \<Rightarrow> py_exception + datetime option" where
  "try_formats date_str [] = Inr None"
| "try_formats date_str (fmt # fmts) =
     (case strptime (strip date_str) fmt of
        Inr t \<Rightarrow> Inr (Some t)
      | Inl (ValueError m) \<Rightarrow> try_formats date_str fmts
      | Inl exn \<Rightarrow> Inl exn)"

definition parse_date_string :: "string \<Rightarrow> py_exception + datetime option" where
  "parse_date_string date_str = (if date_str = [] then Inr None else try_formats date_str formats)"

section \<open>The vocabulary of the specification\<close>

text \<open>
  The definitions of this section are not code of the server: they say in HOL what the
  specification's sentences say, so that the code can be compared with them.
\<close>


text \<open>The feed URLs of the categories that a fan-out selects: the first five.\<close>

definition selected_feeds :: "string list" where
  "selected_feeds = map (\<lambda>(slug, info). ci_rss info) (take 5 AWS_BLOG_CATEGORIES)"

text \<open>
  The single-category search as the specification words it: score the first
  \<open>2 * limit\<close> entries, keep the positive ones, sort them by score, then truncate.
\<close>

definition spec_single_search :: "feed_env \<Rightarrow> string \<Rightarrow> string \<Rightarrow> nat \<Rightarrow> search_result list" where
  "spec_single_search env rss_url query limit =
     (case env rss_url of
        Inl exn \<Rightarrow> []
      | Inr entries \<Rightarrow>
          (case search_entries (str_lower query) (take (limit * 2) entries) of
             Inl exn \<Rightarrow> []
           | Inr results \<Rightarrow> take limit (sorted_reverse relevance_key results)))"

text \<open>The per-category limit of a fan-out as the specification words it.\<close>

definition spec_per_category_limit :: "nat \<Rightarrow> nat" where
  "spec_per_category_limit limit = limit div length selected_feeds + 1"

text \<open>
  The caller of \<^verbatim>\<open>read_blog_post\<close>, who asked for \<open>max_length\<close> characters:
  the body of a chunk is its first \<open>max_length\<close> characters, what follows is the
  continuation notice, from which the next \<^verbatim>\<open>start_index\<close> is read back.
\<close>

definition chunk_body :: "nat \<Rightarrow> string \<Rightarrow> string" where
  "chunk_body max_length chunk = take max_length chunk"

definition marker_prefix :: string where
  "marker_prefix = [CHR 0x0A, CHR 0x0A] @ ''[Content truncated. Use start_index=''"

definition marker_suffix :: string where
  "marker_suffix = '' to continue reading.]''"

definition read_offset :: "string \<Rightarrow> nat option" where
  "read_offset notice =
     (if prefix marker_prefix notice \<and> suffix marker_suffix (drop (length marker_prefix) notice)
      then
        (let ds = take (length notice - length marker_prefix - length marker_suffix)
                    (drop (length marker_prefix) notice)
         in if ds \<noteq> [] \<and> list_all (\<lambda>c. c \<in> set digits) ds
            then Some (nat (foldl (\<lambda>a c. 10 * a + digit_val c) 0 ds))
            else None)
      else None)"

definition next_start_index :: "nat \<Rightarrow> string \<Rightarrow> nat option" where
  "next_start_index max_length chunk = read_offset (drop max_length chunk)"

text \<open>
  Reading a text chunk after chunk, from \<open>start\<close>, for at most \<open>fuel\<close> requests:
  the bodies of the chunks, or \<open>None\<close> when the requests run out before a chunk
  without a notice.
\<close>

fun follow_markers :: "(nat \<Rightarrow> string) \<Rightarrow> nat \<Rightarrow> nat \<Rightarrow> nat \<Rightarrow> string list option" where
  "follow_markers page max_length 0 start = None"
| "follow_markers page max_length (Suc fuel) start =
     (let chunk = page start
      in case next_start_index max_length chunk of
           None \<Rightarrow> Some [chunk_body max_length chunk]
         | Some next_index \<Rightarrow>
             map_option ((#) (chunk_body max_length chunk))
               (follow_markers page max_length fuel next_index))"

text \<open>
  A search result whose score is the relevance of its own title and summary, and positive.
\<close>

definition scored_hit :: "string \<Rightarrow> search_result \<Rightarrow> bool" where
  "scored_hit ql r =
     (sr_relevance_score r = Some (relevance ql (sr_title r) (get_or_empty (sr_summary r)))
      \<and> 0 < relevance ql (sr_title r) (get_or_empty (sr_summary r)))"

text \<open>
  A post whose date, when it has one, is a naive value not before \<^verbatim>\<open>datetime.min\<close>
  and equal to it only when it is \<^verbatim>\<open>datetime.min\<close> itself.
\<close>

definition feed_dated :: "blog_post \<Rightarrow> bool" where
  "feed_dated p =
     (case bp_published_date p of
        None \<Rightarrow> True
      | Some t \<Rightarrow> datetime_key datetime_min \<le> datetime_key t
                  \<and> (datetime_key t \<le> datetime_key datetime_min \<longrightarrow> t = datetime_min))"

section \<open>Example feeds and pages\<close>

definition entry_of ::
  "string \<Rightarrow> string \<Rightarrow> string \<Rightarrow> (int \<times> int \<times> int \<times> int \<times> int \<times> int) option \<Rightarrow> feed_entry" where
  "entry_of title link summary published =
     \<lparr>fe_title = Some title, fe_link = Some link, fe_summary = Some summary,
      fe_author = None, fe_published_parsed = published\<rparr>"

text \<open>
  The feed of the category \<open>aws\<close> holds a post that mentions the query in its summary
  only, followed by one that has it in its title; no other feed answers.
\<close>

definition ranking_feed :: feed_env where
  "ranking_feed rss_url =
     (if rss_url = ''https://aws.amazon.com/blogs/aws/feed/''
      then Inr [entry_of ''Weekly roundup'' ''https://aws.amazon.com/blogs/aws/roundup/''
                  ''News about Lambda'' None,
                entry_of ''Lambda update'' ''https://aws.amazon.com/blogs/aws/lambda-update/''
                  ''A new runtime'' None]
      else Inl (TransportError ''timeout''))"

text \<open>Every feed holds the same three posts about S3.\<close>

definition three_hits_feed :: feed_env where
  "three_hits_feed rss_url =
     Inr [entry_of ''S3 news'' (rss_url @ ''1'') ''first'' (Some (2025, 10, 28, 16, 59, 17)),
          entry_of ''More S3'' (rss_url @ ''2'') ''second'' (Some (2025, 10, 27, 9, 0, 0)),
          entry_of ''S3 again'' (rss_url @ ''3'') ''third'' (Some (2025, 10, 26, 9, 0, 0))]"

text \<open>The feed of \<open>architecture\<close> fails, every other feed holds one post about S3.\<close>

definition one_failing_feed :: feed_env where
  "one_failing_feed rss_url =
     (if rss_url = ''https://aws.amazon.com/blogs/architecture/feed/''
      then Inl (TransportError ''timeout'')
      else Inr [entry_of ''S3 news'' rss_url ''storage'' (Some (2025, 10, 28, 16, 59, 17))])"

text \<open>
  The feed of \<open>aws\<close> holds a post without a date, the feed of \<open>architecture\<close> a post
  dated at the first instant that a datetime can hold; the other feeds are empty.
\<close>

definition undated_first_feed :: feed_env where
  "undated_first_feed rss_url =
     (if rss_url = ''https://aws.amazon.com/blogs/aws/feed/''
      then Inr [entry_of ''Undated'' ''https://aws.amazon.com/blogs/aws/undated/'' ''no date'' None]
      else if rss_url = ''https://aws.amazon.com/blogs/architecture/feed/''
      then Inr [entry_of ''Oldest'' ''https://aws.amazon.com/blogs/architecture/oldest/''
                  ''dated'' (Some (1, 1, 1, 0, 0, 0))]
      else Inr [])"

text \<open>
  The feed of \<open>aws\<close> holds a post without a date, the feed of \<open>architecture\<close> a dated
  post; the other feeds are empty.
\<close>

definition mixed_dates_feed :: feed_env where
  "mixed_dates_feed rss_url =
     (if rss_url = ''https://aws.amazon.com/blogs/aws/feed/''
      then Inr [entry_of ''Undated'' ''https://aws.amazon.com/blogs/aws/undated/'' ''no date'' None]
      else if rss_url = ''https://aws.amazon.com/blogs/architecture/feed/''
      then Inr [entry_of ''Dated'' ''https://aws.amazon.com/blogs/architecture/dated/''
                  ''dated'' (Some (2025, 10, 28, 16, 59, 17))]
      else Inr [])"

text \<open>Every feed answers with no entry.\<close>

definition empty_feed :: feed_env where
  "empty_feed rss_url = Inr []"

text \<open>
  Two pages of the category \<open>aws\<close>: the first has a heading, the other has none. The
  extraction finds the title of the first and the category of both; the markdown of both
  is one word.
\<close>

definition example_fetch :: "string \<Rightarrow> py_exception + string" where
  "example_fetch url =
     (if url = ''https://aws.amazon.com/blogs/aws/x/''
      then Inr ''<h1>T</h1><article>Body</article>''
      else Inr ''<article>Body</article>'')"

definition example_extract :: "string \<Rightarrow> string \<Rightarrow> metadata" where
  "example_extract html url =
     \<lparr>md_title = (if html = ''<h1>T</h1><article>Body</article>'' then Some ''T'' else None),
      md_author = None, md_published_date = None, md_category = Some ''AWS News Blog''\<rparr>"

definition example_clean :: "string \<Rightarrow> string" where
  "example_clean html = ''Body''"

section \<open>Properties\<close>

subsection \<open>The stable descending sort\<close>

lemma set_insort_desc: "set (insort_desc key x xs) = insert x (set xs)"
  by (induction xs) auto

lemma set_sorted_reverse: "set (sorted_reverse key xs) = set xs"
  by (induction xs) (auto simp: sorted_reverse_def set_insort_desc)

lemma length_insort_desc: "length (insort_desc key x xs) = Suc (length xs)"
  by (induction xs) auto

lemma length_sorted_reverse: "length (sorted_reverse key xs) = length xs"
  by (induction xs) (auto simp: sorted_reverse_def length_insort_desc)

lemma sorted_insort_desc:
  "sorted_wrt (\<lambda>a b. key b \<le> key a) xs \<Longrightarrow> sorted_wrt (\<lambda>a b. key b \<le> key a) (insort_desc key x xs)"
  by (induction xs) (auto simp: set_insort_desc)

lemma sorted_sorted_reverse: "sorted_wrt (\<lambda>a b. key b \<le> key a) (sorted_reverse key xs)"
  by (induction xs) (auto simp: sorted_reverse_def sorted_insort_desc)

lemma sorted_reverse_Cons: "sorted_reverse key (x # xs) = insort_desc key x (sorted_reverse key xs)"
  by (simp add: sorted_reverse_def)

lemma sorted_reverse_Nil: "sorted_reverse key [] = []"
  by (simp add: sorted_reverse_def)

text \<open>The sort is stable: elements of equal key keep their order.\<close>

lemma filter_insort_desc:
  "filter (\<lambda>y. key y = k) (insort_desc key x xs) =
     (if key x = k then x # filter (\<lambda>y. key y = k) xs else filter (\<lambda>y. key y = k) xs)"
  by (induction xs) auto

lemma filter_sorted_reverse:
  "filter (\<lambda>y. key y = k) (sorted_reverse key xs) = filter (\<lambda>y. key y = k) xs"
  by (induction xs) (simp_all add: sorted_reverse_Nil sorted_reverse_Cons filter_insort_desc)

lemma prefix_filter_take: "prefix (filter P (take n xs)) (filter P xs)"
  by (rule filter_mono_prefix) (rule take_is_prefix)

subsection \<open>Scoring and the results of a search\<close>

lemma relevance_cases:
  "relevance ql t s = 0 \<or> relevance ql t s = 1 \<or> relevance ql t s = 2 \<or> relevance ql t s = 3"
  by (simp add: relevance_def)

lemma search_entries_hits:
  "search_entries ql es = Inr rs \<Longrightarrow> r \<in> set rs \<Longrightarrow> scored_hit ql r"
proof (induction es arbitrary: rs)
  case Nil
  then show ?case by simp
next
  case (Cons e es)
  then show ?case
    by (auto simp: Let_def scored_hit_def get_or_empty_def split: if_splits sum.splits)
qed

lemma search_rss_feed_hits:
  "r \<in> set (fst (search_rss_feed env u q n)) \<Longrightarrow> scored_hit (str_lower q) r"
  by (auto simp: search_rss_feed_def search_rss_feed_try_def split: sum.splits
           dest: in_set_takeD search_entries_hits)

lemma fst_search_categories_Cons:
  "fst (search_categories env q n (c # cats)) =
     (case map_of AWS_BLOG_CATEGORIES c of
        None \<Rightarrow> []
      | Some info \<Rightarrow> fst (search_rss_feed env (ci_rss info) q n))
     @ fst (search_categories env q n cats)"
  by (simp add: Let_def split: option.splits prod.splits)

lemma search_categories_hits:
  "r \<in> set (fst (search_categories env q n cats)) \<Longrightarrow> scored_hit (str_lower q) r"
proof (induction cats)
  case Nil
  then show ?case by simp
next
  case (Cons c cats)
  then show ?case
    unfolding fst_search_categories_Cons
    by (auto split: option.splits dest: search_rss_feed_hits)
qed

lemma fst_search_blog_posts:
  "fst (search_blog_posts env q cat n) =
     take n (sorted_reverse relevance_key
       (case known_category cat of
          Some info \<Rightarrow> fst (search_rss_feed env (ci_rss info) q n)
        | None \<Rightarrow> fst (search_categories env q (n div length (map fst AWS_BLOG_CATEGORIES) + 1)
                        (take 5 (map fst AWS_BLOG_CATEGORIES)))))"
  by (simp add: search_blog_posts_def Let_def split: option.splits prod.splits)

lemma search_blog_posts_hits:
  "r \<in> set (fst (search_blog_posts env q cat n)) \<Longrightarrow> scored_hit (str_lower q) r"
  unfolding fst_search_blog_posts
  by (auto simp: set_sorted_reverse split: option.splits
           dest!: in_set_takeD dest: search_rss_feed_hits search_categories_hits)





text \<open>
  Claim C9. Every result that \<^verbatim>\<open>search_blog_posts\<close> returns carries a relevance
  score, and the score is 1, 2 or 3, whatever the query, the category filter and the
  feeds are.
\<close>

theorem C9_relevance_score_range:
  "\<forall>r \<in> set (fst (search_blog_posts env query category limit)).
     sr_relevance_score r = Some 1 \<or> sr_relevance_score r = Some 2 \<or> sr_relevance_score r = Some 3"
proof
  fix r
  assume "r \<in> set (fst (search_blog_posts env query category limit))"
  then have "scored_hit (str_lower query) r"
    by (rule search_blog_posts_hits)
  then show "sr_relevance_score r = Some 1 \<or> sr_relevance_score r = Some 2 \<or> sr_relevance_score r = Some 3"
    using relevance_cases [of "str_lower query" "sr_title r" "get_or_empty (sr_summary r)"]
    by (auto simp: scored_hit_def)
qed

theorem C9_relevance_score_range_witness:
  "fst (search_blog_posts ranking_feed ''lambda'' (Some ''aws'') 3) =
     [\<lparr>sr_title = ''Lambda update'', sr_url = ''https://aws.amazon.com/blogs/aws/lambda-update/'',
       sr_summary = Some ''A new runtime'', sr_published_date = None, sr_category = None,
       sr_relevance_score = Some 2\<rparr>,
      \<lparr>sr_title = ''Weekly roundup'', sr_url = ''https://aws.amazon.com/blogs/aws/roundup/'',
       sr_summary = Some ''News about Lambda'', sr_published_date = None, sr_category = None,
       sr_relevance_score = Some 1\<rparr>]
   \<and> (\<exists>r. r \<in> set (fst (search_blog_posts ranking_feed ''lambda'' (Some ''aws'') 3))
          \<and> sr_relevance_score r \<in> {Some 1, Some 2, Some 3})"
proof -
  let ?r = "\<lparr>sr_title = ''Lambda update'',
       sr_url = ''https://aws.amazon.com/blogs/aws/lambda-update/'',
       sr_summary = Some ''A new runtime'', sr_published_date = None, sr_category = None,
       sr_relevance_score = Some 2\<rparr>"
  let ?s = "\<lparr>sr_title = ''Weekly roundup'', sr_url = ''https://aws.amazon.com/blogs/aws/roundup/'',
       sr_summary = Some ''News about Lambda'', sr_published_date = None, sr_category = None,
       sr_relevance_score = Some 1\<rparr>"
  have e: "fst (search_blog_posts ranking_feed ''lambda'' (Some ''aws'') 3) = [?r, ?s]"
    by code_simp
  then have m: "?r \<in> set (fst (search_blog_posts ranking_feed ''lambda'' (Some ''aws'') 3))"
    by simp
  from C9_relevance_score_range [of ranking_feed "''lambda''" "Some ''aws''" 3] m
  have "sr_relevance_score ?r \<in> {Some 1, Some 2, Some 3}"
    by blast
  with e m show ?thesis by blast
qed


subsection \<open>The fan-out over the selected categories\<close>

lemma fst_search_categories_selected:
  "fst (search_categories env q n (take 5 (map fst AWS_BLOG_CATEGORIES))) =
     concat (map (\<lambda>u. fst (search_rss_feed env u q n)) selected_feeds)"
  by (simp add: AWS_BLOG_CATEGORIES_def selected_feeds_def fst_search_categories_Cons
             search_categories.simps(1)
           del: search_categories.simps(2))

lemma length_registry: "length (map fst AWS_BLOG_CATEGORIES) = 11"
  by (simp add: AWS_BLOG_CATEGORIES_def)

lemma fst_search_blog_posts_fanout:
  "known_category cat = None \<Longrightarrow>
   fst (search_blog_posts env q cat n) =
     take n (sorted_reverse relevance_key
       (concat (map (\<lambda>u. fst (search_rss_feed env u q (n div 11 + 1))) selected_feeds)))"
  unfolding fst_search_blog_posts
  by (simp only: option.case fst_search_categories_selected length_registry)

lemma fst_search_blog_posts_single:
  "known_category cat = Some info \<Longrightarrow>
   fst (search_blog_posts env q cat n) =
     take n (sorted_reverse relevance_key (fst (search_rss_feed env (ci_rss info) q n)))"
  unfolding fst_search_blog_posts by simp

lemma fst_recent_categories_Cons:
  "fst (recent_categories env n (item # items)) =
     fst (get_posts_from_rss env (ci_rss (snd item)) n) @ fst (recent_categories env n items)"
  by (cases item) (simp add: Let_def split: prod.splits)

lemma fst_recent_categories_selected:
  "fst (recent_categories env n (take 5 AWS_BLOG_CATEGORIES)) =
     concat (map (\<lambda>u. fst (get_posts_from_rss env u n)) selected_feeds)"
  by (simp add: AWS_BLOG_CATEGORIES_def selected_feeds_def fst_recent_categories_Cons
             recent_categories.simps(1)
           del: recent_categories.simps(2))

lemma fst_get_recent_posts:
  "fst (get_recent_posts env cat n) =
     take n (sorted_reverse published_key
       (case known_category cat of
          Some info \<Rightarrow> fst (get_posts_from_rss env (ci_rss info) n)
        | None \<Rightarrow> fst (recent_categories env (n div 5 + 1) (take 5 AWS_BLOG_CATEGORIES))))"
  by (simp add: get_recent_posts_def Let_def split: option.splits prod.splits)

lemma fst_get_recent_posts_fanout:
  "known_category cat = None \<Longrightarrow>
   fst (get_recent_posts env cat n) =
     take n (sorted_reverse published_key
       (concat (map (\<lambda>u. fst (get_posts_from_rss env u (n div 5 + 1))) selected_feeds)))"
  unfolding fst_get_recent_posts
  by (simp only: option.case fst_recent_categories_selected)

lemma known_category_None: "known_category None = None"
  by (simp add: known_category_def)

lemma length_selected_feeds: "length selected_feeds = 5"
  by (simp add: selected_feeds_def AWS_BLOG_CATEGORIES_def)

text \<open>What the single-category search computes: the first hits, then ranked.\<close>

lemma search_single_category_code:
  assumes "known_category cat = Some info" and "env (ci_rss info) = Inr entries"
    and "search_entries (str_lower q) (take (n * 2) entries) = Inr hits"
  shows "fst (search_blog_posts env q cat n) = sorted_reverse relevance_key (take n hits)"
proof -
  have "fst (search_rss_feed env (ci_rss info) q n) = take n hits"
    using assms(2,3) by (simp add: search_rss_feed_def search_rss_feed_try_def)
  then show ?thesis
    using assms(1) by (simp add: fst_search_blog_posts_single length_sorted_reverse)
qed

text \<open>
  Claim C1. The claim says that a search in one known category returns the first
  \<open>limit\<close> of the positive entries after they are sorted by score. On the feed below,
  with the limit 1, the code returns the summary-only match that comes first in the feed,
  while the pipeline of the claim returns the title match: the helper cuts the hits to
  the limit before they are ranked.
\<close>

theorem C1_truncates_before_ranking:
  "fst (search_blog_posts ranking_feed ''lambda'' (Some ''aws'') 1) =
     [\<lparr>sr_title = ''Weekly roundup'', sr_url = ''https://aws.amazon.com/blogs/aws/roundup/'',
       sr_summary = Some ''News about Lambda'', sr_published_date = None, sr_category = None,
       sr_relevance_score = Some 1\<rparr>]
   \<and> spec_single_search ranking_feed ''https://aws.amazon.com/blogs/aws/feed/'' ''lambda'' 1 =
     [\<lparr>sr_title = ''Lambda update'', sr_url = ''https://aws.amazon.com/blogs/aws/lambda-update/'',
       sr_summary = Some ''A new runtime'', sr_published_date = None, sr_category = None,
       sr_relevance_score = Some 2\<rparr>]"
  by code_simp

text \<open>
  Claim C2. The claim says that each of the five selected categories is queried with
  the limit \<open>limit div 5 + 1\<close>. \<^verbatim>\<open>get_recent_posts\<close> does so;
  \<^verbatim>\<open>search_blog_posts\<close> divides by the size of the whole registry, 11. With the
  limit 10 and three hits in every feed the search returns one result per category, five
  in all, where the limit of the claim is 3 per category.
\<close>

theorem C2_search_divides_by_registry_size:
  "fst (search_blog_posts env query None limit) =
     take limit (sorted_reverse relevance_key
       (concat (map (\<lambda>u. fst (search_rss_feed env u query (limit div 11 + 1))) selected_feeds)))
   \<and> fst (get_recent_posts env None limit) =
     take limit (sorted_reverse published_key
       (concat (map (\<lambda>u. fst (get_posts_from_rss env u (limit div 5 + 1))) selected_feeds)))
   \<and> spec_per_category_limit limit = limit div 5 + 1
   \<and> spec_per_category_limit 10 = 3
   \<and> map sr_url (fst (search_blog_posts three_hits_feed ''s3'' None 10)) =
       [''https://aws.amazon.com/blogs/aws/feed/1'',
        ''https://aws.amazon.com/blogs/architecture/feed/1'',
        ''https://aws.amazon.com/blogs/compute/feed/1'',
        ''https://aws.amazon.com/blogs/containers/feed/1'',
        ''https://aws.amazon.com/blogs/database/feed/1'']"
proof -
  have "map sr_url (fst (search_blog_posts three_hits_feed ''s3'' None 10)) =
       [''https://aws.amazon.com/blogs/aws/feed/1'',
        ''https://aws.amazon.com/blogs/architecture/feed/1'',
        ''https://aws.amazon.com/blogs/compute/feed/1'',
        ''https://aws.amazon.com/blogs/containers/feed/1'',
        ''https://aws.amazon.com/blogs/database/feed/1'']"
    by code_simp
  then show ?thesis
    by (simp add: fst_search_blog_posts_fanout fst_get_recent_posts_fanout known_category_None
          spec_per_category_limit_def length_selected_feeds)
qed

text \<open>
  Claim C3, amended. For every category key that is not in the registry,
  \<^verbatim>\<open>get_rss_feed\<close> returns the empty list, logs the descriptive error once and
  performs no request; the empty list is also what a successful call on an empty feed
  returns.
\<close>

theorem C3_unknown_category_empty_list:
  "map_of AWS_BLOG_CATEGORIES category = None \<Longrightarrow>
   get_rss_feed env category limit =
     ([], [Log ERROR (''Error getting RSS feed for '' @ category @ '': Unknown category: ''
                      @ category @ ''. Use list_blog_categories to see available options.'')])"
  by (simp add: get_rss_feed_def)

theorem C3_unknown_category_empty_list_witness:
  "map_of AWS_BLOG_CATEGORIES ''nonexistent-category'' = None
   \<and> get_rss_feed three_hits_feed ''nonexistent-category'' 20 =
     ([], [Log ERROR ''Error getting RSS feed for nonexistent-category: Unknown category: nonexistent-category. Use list_blog_categories to see available options.''])"
proof -
  have h: "map_of AWS_BLOG_CATEGORIES ''nonexistent-category'' = None"
    by code_simp
  from C3_unknown_category_empty_list [OF h, of three_hits_feed 20] h show ?thesis
    by simp
qed

theorem C3_unknown_category_counterexample:
  "\<not> (fst (get_rss_feed empty_feed ''nonexistent-category'' 20)
        \<noteq> fst (get_rss_feed empty_feed ''aws'' 20))
   \<and> get_posts_from_rss_try empty_feed ''https://aws.amazon.com/blogs/aws/feed/'' 20 = Inr []
   \<and> map_of AWS_BLOG_CATEGORIES ''nonexistent-category'' = None"
  by code_simp


lemma concat_map_filter_empty:
  "(\<And>x. x \<in> set xs \<Longrightarrow> \<not> P x \<Longrightarrow> f x = []) \<Longrightarrow>
   concat (map f (filter P xs)) = concat (map f xs)"
  by (induction xs) auto

lemma search_rss_feed_failed:
  "search_rss_feed_try env u q n = Inl exn \<Longrightarrow> fst (search_rss_feed env u q n) = []"
  by (simp add: search_rss_feed_def)

lemma get_posts_from_rss_failed:
  "get_posts_from_rss_try env u n = Inl exn \<Longrightarrow> fst (get_posts_from_rss env u n) = []"
  by (simp add: get_posts_from_rss_def)

lemma take_sorted_reverse_all:
  "length xs \<le> n \<Longrightarrow> set (take n (sorted_reverse key xs)) = set xs"
  by (simp add: length_sorted_reverse set_sorted_reverse)

lemma take_sorted_reverse_nonempty:
  "0 < n \<Longrightarrow> xs \<noteq> [] \<Longrightarrow> take n (sorted_reverse key xs) \<noteq> []"
  using length_sorted_reverse [of key xs] by (cases n; cases "sorted_reverse key xs") auto

text \<open>The aggregate of a fan-out in which the feed \<open>u\<close> contributes nothing.\<close>

lemma fanout_without_failed:
  assumes "f u = []"
  shows "take n (sorted_reverse key (concat (map f us))) =
         take n (sorted_reverse key (concat (map f (filter (\<lambda>v. v \<noteq> u) us))))"
  using assms by (subst concat_map_filter_empty [where P = "\<lambda>v. v \<noteq> u"]) auto

lemma fanout_members:
  assumes "v \<in> set vs" and "r \<in> set (f v)" and "length (concat (map f vs)) \<le> n"
  shows "r \<in> set (take n (sorted_reverse key (concat (map f vs))))"
  using assms by (auto simp: take_sorted_reverse_all)

lemma fanout_nonempty:
  assumes "0 < n" and "v \<in> set vs" and "f v \<noteq> []"
  shows "take n (sorted_reverse key (concat (map f vs))) \<noteq> []"
proof -
  from assms(2,3) have "concat (map f vs) \<noteq> []" by auto
  with assms(1) show ?thesis by (rule take_sorted_reverse_nonempty)
qed

text \<open>
  Claim C6. In a fan-out of \<^verbatim>\<open>search_blog_posts\<close> or \<^verbatim>\<open>get_recent_posts\<close> in
  which the feed \<open>u\<close> of a selected category fails, the output is the ranked and
  truncated merge of what the other selected categories produce: each of their results
  appears in the output whenever the merge fits the limit, and the output is not empty
  when one of them produces a result.
\<close>

theorem C6_failure_isolated:
  "(known_category category = None \<and> u \<in> set selected_feeds
      \<and> search_rss_feed_try env u query (limit div 11 + 1) = Inl exn
    \<longrightarrow> fst (search_blog_posts env query category limit) =
          take limit (sorted_reverse relevance_key
            (concat (map (\<lambda>v. fst (search_rss_feed env v query (limit div 11 + 1)))
               (filter (\<lambda>v. v \<noteq> u) selected_feeds))))
        \<and> (\<forall>v \<in> set (filter (\<lambda>v. v \<noteq> u) selected_feeds).
             \<forall>r \<in> set (fst (search_rss_feed env v query (limit div 11 + 1))).
               length (concat (map (\<lambda>v. fst (search_rss_feed env v query (limit div 11 + 1)))
                  (filter (\<lambda>v. v \<noteq> u) selected_feeds))) \<le> limit
               \<longrightarrow> r \<in> set (fst (search_blog_posts env query category limit)))
        \<and> (0 < limit
             \<and> (\<exists>v \<in> set (filter (\<lambda>v. v \<noteq> u) selected_feeds).
                  fst (search_rss_feed env v query (limit div 11 + 1)) \<noteq> [])
            \<longrightarrow> fst (search_blog_posts env query category limit) \<noteq> []))
   \<and> (known_category category = None \<and> u \<in> set selected_feeds
      \<and> get_posts_from_rss_try env u (limit div 5 + 1) = Inl exn
    \<longrightarrow> fst (get_recent_posts env category limit) =
          take limit (sorted_reverse published_key
            (concat (map (\<lambda>v. fst (get_posts_from_rss env v (limit div 5 + 1)))
               (filter (\<lambda>v. v \<noteq> u) selected_feeds))))
        \<and> (\<forall>v \<in> set (filter (\<lambda>v. v \<noteq> u) selected_feeds).
             \<forall>p \<in> set (fst (get_posts_from_rss env v (limit div 5 + 1))).
               length (concat (map (\<lambda>v. fst (get_posts_from_rss env v (limit div 5 + 1)))
                  (filter (\<lambda>v. v \<noteq> u) selected_feeds))) \<le> limit
               \<longrightarrow> p \<in> set (fst (get_recent_posts env category limit)))
        \<and> (0 < limit
             \<and> (\<exists>v \<in> set (filter (\<lambda>v. v \<noteq> u) selected_feeds).
                  fst (get_posts_from_rss env v (limit div 5 + 1)) \<noteq> [])
            \<longrightarrow> fst (get_recent_posts env category limit) \<noteq> []))"
proof (intro conjI impI)
  assume h: "known_category category = None \<and> u \<in> set selected_feeds
      \<and> search_rss_feed_try env u query (limit div 11 + 1) = Inl exn"
  let ?f = "\<lambda>v. fst (search_rss_feed env v query (limit div 11 + 1))"
  let ?others = "filter (\<lambda>v. v \<noteq> u) selected_feeds"
  from h have "?f u = []" by (simp add: search_rss_feed_failed)
  then have "take limit (sorted_reverse relevance_key (concat (map ?f selected_feeds))) =
      take limit (sorted_reverse relevance_key (concat (map ?f ?others)))"
    by (rule fanout_without_failed)
  moreover from h have "fst (search_blog_posts env query category limit) =
      take limit (sorted_reverse relevance_key (concat (map ?f selected_feeds)))"
    by (simp only: fst_search_blog_posts_fanout)
  ultimately show eq: "fst (search_blog_posts env query category limit) =
      take limit (sorted_reverse relevance_key (concat (map ?f ?others)))"
    by (rule trans [rotated])
  show "\<forall>v \<in> set ?others. \<forall>r \<in> set (?f v).
          length (concat (map ?f ?others)) \<le> limit
          \<longrightarrow> r \<in> set (fst (search_blog_posts env query category limit))"
    unfolding eq by (intro ballI impI) (rule fanout_members)
  show "fst (search_blog_posts env query category limit) \<noteq> []"
    if "0 < limit \<and> (\<exists>v \<in> set ?others. ?f v \<noteq> [])"
  proof -
    from that obtain v where "0 < limit" "v \<in> set ?others" "?f v \<noteq> []" by blast
    then show ?thesis unfolding eq by (rule fanout_nonempty)
  qed
next
  assume h: "known_category category = None \<and> u \<in> set selected_feeds
      \<and> get_posts_from_rss_try env u (limit div 5 + 1) = Inl exn"
  let ?f = "\<lambda>v. fst (get_posts_from_rss env v (limit div 5 + 1))"
  let ?others = "filter (\<lambda>v. v \<noteq> u) selected_feeds"
  from h have "?f u = []" by (simp add: get_posts_from_rss_failed)
  then have "take limit (sorted_reverse published_key (concat (map ?f selected_feeds))) =
      take limit (sorted_reverse published_key (concat (map ?f ?others)))"
    by (rule fanout_without_failed)
  moreover from h have "fst (get_recent_posts env category limit) =
      take limit (sorted_reverse published_key (concat (map ?f selected_feeds)))"
    by (simp only: fst_get_recent_posts_fanout)
  ultimately show eq: "fst (get_recent_posts env category limit) =
      take limit (sorted_reverse published_key (concat (map ?f ?others)))"
    by (rule trans [rotated])
  show "\<forall>v \<in> set ?others. \<forall>p \<in> set (?f v).
          length (concat (map ?f ?others)) \<le> limit
          \<longrightarrow> p \<in> set (fst (get_recent_posts env category limit))"
    unfolding eq by (intro ballI impI) (rule fanout_members)
  show "fst (get_recent_posts env category limit) \<noteq> []"
    if "0 < limit \<and> (\<exists>v \<in> set ?others. ?f v \<noteq> [])"
  proof -
    from that obtain v where "0 < limit" "v \<in> set ?others" "?f v \<noteq> []" by blast
    then show ?thesis unfolding eq by (rule fanout_nonempty)
  qed
qed


theorem C6_failure_isolated_witness:
  "fst (search_blog_posts one_failing_feed ''s3'' None 10) \<noteq> []
   \<and> fst (get_recent_posts one_failing_feed None 10) \<noteq> []
   \<and> search_rss_feed_try one_failing_feed ''https://aws.amazon.com/blogs/architecture/feed/''
        ''s3'' (10 div 11 + 1) = Inl (TransportError ''timeout'')
   \<and> get_posts_from_rss_try one_failing_feed ''https://aws.amazon.com/blogs/architecture/feed/''
        (10 div 5 + 1) = Inl (TransportError ''timeout'')
   \<and> \<lparr>sr_title = ''S3 news'', sr_url = ''https://aws.amazon.com/blogs/compute/feed/'',
       sr_summary = Some ''storage'',
       sr_published_date = Some \<lparr>dt_year = 2025, dt_month = 10, dt_day = 28, dt_hour = 16,
         dt_minute = 59, dt_second = 17, dt_utcoffset = None\<rparr>,
       sr_category = None, sr_relevance_score = Some 2\<rparr>
       \<in> set (fst (search_blog_posts one_failing_feed ''s3'' None 10))
   \<and> \<lparr>bp_title = ''S3 news'', bp_url = ''https://aws.amazon.com/blogs/compute/feed/'',
       bp_summary = Some ''storage'', bp_author = Some [],
       bp_published_date = Some \<lparr>dt_year = 2025, dt_month = 10, dt_day = 28, dt_hour = 16,
         dt_minute = 59, dt_second = 17, dt_utcoffset = None\<rparr>,
       bp_category = Some ''AWS Compute Blog'', bp_tags = None\<rparr>
       \<in> set (fst (get_recent_posts one_failing_feed None 10))"
proof -
  let ?u = "''https://aws.amazon.com/blogs/architecture/feed/''"
  let ?v = "''https://aws.amazon.com/blogs/compute/feed/''"
  let ?r = "\<lparr>sr_title = ''S3 news'', sr_url = ?v, sr_summary = Some ''storage'',
       sr_published_date = Some \<lparr>dt_year = 2025, dt_month = 10, dt_day = 28, dt_hour = 16,
         dt_minute = 59, dt_second = 17, dt_utcoffset = None\<rparr>,
       sr_category = None, sr_relevance_score = Some 2\<rparr>"
  let ?p = "\<lparr>bp_title = ''S3 news'', bp_url = ?v,
       bp_summary = Some ''storage'', bp_author = Some [],
       bp_published_date = Some \<lparr>dt_year = 2025, dt_month = 10, dt_day = 28, dt_hour = 16,
         dt_minute = 59, dt_second = 17, dt_utcoffset = None\<rparr>,
       bp_category = Some ''AWS Compute Blog'', bp_tags = None\<rparr>"
  let ?others = "filter (\<lambda>v. v \<noteq> ?u) selected_feeds"
  have h1: "known_category None = None" by code_simp
  have h2: "?u \<in> set selected_feeds" by code_simp
  have h3: "search_rss_feed_try one_failing_feed ?u ''s3'' (10 div 11 + 1)
              = Inl (TransportError ''timeout'')" by code_simp
  have h4: "get_posts_from_rss_try one_failing_feed ?u (10 div 5 + 1)
              = Inl (TransportError ''timeout'')" by code_simp
  have h5: "(0::nat) < 10 \<and> (\<exists>v \<in> set ?others.
              fst (search_rss_feed one_failing_feed v ''s3'' (10 div 11 + 1)) \<noteq> [])"
    by code_simp
  have h6: "(0::nat) < 10 \<and> (\<exists>v \<in> set ?others.
              fst (get_posts_from_rss one_failing_feed v (10 div 5 + 1)) \<noteq> [])"
    by code_simp
  have v: "?v \<in> set ?others" by code_simp
  have r: "?r \<in> set (fst (search_rss_feed one_failing_feed ?v ''s3'' (10 div 11 + 1)))"
    by code_simp
  have p: "?p \<in> set (fst (get_posts_from_rss one_failing_feed ?v (10 div 5 + 1)))"
    by code_simp
  have fr: "length (concat (map (\<lambda>v. fst (search_rss_feed one_failing_feed v ''s3''
               (10 div 11 + 1))) ?others)) \<le> 10"
    by code_simp
  have fp: "length (concat (map (\<lambda>v. fst (get_posts_from_rss one_failing_feed v
               (10 div 5 + 1))) ?others)) \<le> 10"
    by code_simp
  note c = C6_failure_isolated [of None ?u one_failing_feed "''s3''" 10 "TransportError ''timeout''"]
  from c h1 h2 h3 h5 have a: "fst (search_blog_posts one_failing_feed ''s3'' None 10) \<noteq> []"
    by blast
  from c h1 h2 h4 h6 have b: "fst (get_recent_posts one_failing_feed None 10) \<noteq> []"
    by blast
  from c h1 h2 h3 have "\<forall>v \<in> set ?others.
      \<forall>r \<in> set (fst (search_rss_feed one_failing_feed v ''s3'' (10 div 11 + 1))).
        length (concat (map (\<lambda>v. fst (search_rss_feed one_failing_feed v ''s3''
               (10 div 11 + 1))) ?others)) \<le> 10
        \<longrightarrow> r \<in> set (fst (search_blog_posts one_failing_feed ''s3'' None 10))"
    by blast
  with v r fr have mr: "?r \<in> set (fst (search_blog_posts one_failing_feed ''s3'' None 10))"
    by blast
  from c h1 h2 h4 have "\<forall>v \<in> set ?others.
      \<forall>p \<in> set (fst (get_posts_from_rss one_failing_feed v (10 div 5 + 1))).
        length (concat (map (\<lambda>v. fst (get_posts_from_rss one_failing_feed v
               (10 div 5 + 1))) ?others)) \<le> 10
        \<longrightarrow> p \<in> set (fst (get_recent_posts one_failing_feed None 10))"
    by blast
  with v p fp have mp: "?p \<in> set (fst (get_recent_posts one_failing_feed None 10))"
    by blast
  from a b h3 h4 mr mp show ?thesis by blast
qed

subsection \<open>Dates of the posts of a feed\<close>

lemma datetime_new_naive_min:
  "datetime_new y mo d h mi s None = Inr t \<Longrightarrow>
   datetime_key datetime_min \<le> datetime_key t
   \<and> (datetime_key t \<le> datetime_key datetime_min \<longrightarrow> t = datetime_min)"
  by (auto simp: datetime_new_def datetime_key_def datetime_min_def less_eq_prod_def
           split: if_splits)

lemma entry_published_min:
  "entry_published e = Inr (Some t) \<Longrightarrow>
   datetime_key datetime_min \<le> datetime_key t
   \<and> (datetime_key t \<le> datetime_key datetime_min \<longrightarrow> t = datetime_min)"
  by (auto simp: entry_published_def split: option.splits prod.splits sum.splits
           dest!: datetime_new_naive_min)

lemma posts_of_entries_dated:
  "posts_of_entries u es = Inr ps \<Longrightarrow> p \<in> set ps \<Longrightarrow> feed_dated p"
proof (induction es arbitrary: ps)
  case Nil
  then show ?case by simp
next
  case (Cons e es)
  from Cons.prems obtain d qs where d: "entry_published e = Inr d"
    and qs: "posts_of_entries u es = Inr qs"
    and ps: "ps = \<lparr>bp_title = get_or_empty (fe_title e), bp_url = get_or_empty (fe_link e),
                   bp_summary = Some (get_or_empty (fe_summary e)),
                   bp_author = Some (get_or_empty (fe_author e)),
                   bp_published_date = d, bp_category = rss_category u,
                   bp_tags = None\<rparr> # qs"
    by (auto split: sum.splits)
  show ?case
  proof (cases "p \<in> set qs")
    case True
    with qs show ?thesis by (rule Cons.IH)
  next
    case False
    with Cons.prems(2) ps have "bp_published_date p = d" by auto
    with d show ?thesis
      by (cases d) (auto simp: feed_dated_def dest: entry_published_min)
  qed
qed

lemma get_posts_from_rss_dated:
  "p \<in> set (fst (get_posts_from_rss env u n)) \<Longrightarrow> feed_dated p"
  by (auto simp: get_posts_from_rss_def get_posts_from_rss_try_def split: sum.splits
           dest: posts_of_entries_dated)

lemma recent_categories_dated:
  "p \<in> set (fst (recent_categories env n items)) \<Longrightarrow> feed_dated p"
proof (induction items)
  case Nil
  then show ?case by simp
next
  case (Cons item items)
  then show ?case
    unfolding fst_recent_categories_Cons by (auto dest: get_posts_from_rss_dated)
qed

lemma get_recent_posts_dated:
  "p \<in> set (fst (get_recent_posts env cat n)) \<Longrightarrow> feed_dated p"
  unfolding fst_get_recent_posts
  by (auto simp: set_sorted_reverse split: option.splits
           dest!: in_set_takeD dest: get_posts_from_rss_dated recent_categories_dated)

lemma get_recent_posts_sorted:
  "sorted_wrt (\<lambda>a b. published_key b \<le> published_key a) (fst (get_recent_posts env cat n))"
  unfolding fst_get_recent_posts by (intro sorted_wrt_take sorted_sorted_reverse)

text \<open>
  Claim C7, amended. Without a category filter the posts that \<^verbatim>\<open>get_recent_posts\<close>
  returns are sorted by published date, the latest first, a missing date counting as
  \<^verbatim>\<open>datetime.min\<close>; every post without a date comes after every post whose date is
  known and is not \<^verbatim>\<open>datetime.min\<close> itself. The output is the first \<open>limit\<close>
  posts of the stable ranking of the fetched posts: posts of equal key, such as the
  undated ones and one dated \<^verbatim>\<open>datetime.min\<close>, keep the order in which they were
  fetched.
\<close>

theorem C7_recent_posts_sorted:
  "known_category category = None \<Longrightarrow>
   sorted_wrt (\<lambda>a b. published_key b \<le> published_key a)
     (fst (get_recent_posts env category limit))
   \<and> (\<forall>i j t. i < length (fst (get_recent_posts env category limit))
          \<and> j < length (fst (get_recent_posts env category limit))
          \<and> bp_published_date (fst (get_recent_posts env category limit) ! i) = None
          \<and> bp_published_date (fst (get_recent_posts env category limit) ! j) = Some t
          \<and> t \<noteq> datetime_min
        \<longrightarrow> j < i)
   \<and> (\<exists>ranked.
         fst (get_recent_posts env category limit) = take limit ranked
         \<and> sorted_wrt (\<lambda>a b. published_key b \<le> published_key a) ranked
         \<and> (\<forall>k. filter (\<lambda>p. published_key p = k) ranked =
                  filter (\<lambda>p. published_key p = k)
                    (concat (map (\<lambda>u. fst (get_posts_from_rss env u (limit div 5 + 1)))
                       selected_feeds))))
   \<and> (\<forall>k. prefix
          (filter (\<lambda>p. published_key p = k) (fst (get_recent_posts env category limit)))
          (filter (\<lambda>p. published_key p = k)
             (concat (map (\<lambda>u. fst (get_posts_from_rss env u (limit div 5 + 1)))
                selected_feeds))))"
proof (intro conjI allI impI)
  show "sorted_wrt (\<lambda>a b. published_key b \<le> published_key a)
     (fst (get_recent_posts env category limit))"
    by (rule get_recent_posts_sorted)
next
  fix i j t
  let ?out = "fst (get_recent_posts env category limit)"
  assume a: "i < length ?out \<and> j < length ?out \<and> bp_published_date (?out ! i) = None
          \<and> bp_published_date (?out ! j) = Some t \<and> t \<noteq> datetime_min"
  show "j < i"
  proof (rule ccontr)
    assume "\<not> j < i"
    moreover from a have "i \<noteq> j" by auto
    ultimately have "i < j" by simp
    with a get_recent_posts_sorted [of env category limit]
    have "published_key (?out ! j) \<le> published_key (?out ! i)"
      by (simp add: sorted_wrt_iff_nth_less)
    with a have le: "datetime_key t \<le> datetime_key datetime_min"
      by (simp add: published_key_def)
    from a have "?out ! j \<in> set ?out" by simp
    then have "feed_dated (?out ! j)" by (rule get_recent_posts_dated)
    with a le have "t = datetime_min" by (simp add: feed_dated_def)
    with a show False by simp
  qed
next
  assume h: "known_category category = None"
  let ?fetched = "concat (map (\<lambda>u. fst (get_posts_from_rss env u (limit div 5 + 1)))
                       selected_feeds)"
  from h have eq: "fst (get_recent_posts env category limit) =
      take limit (sorted_reverse published_key ?fetched)"
    by (rule fst_get_recent_posts_fanout)
  show "\<exists>ranked.
         fst (get_recent_posts env category limit) = take limit ranked
         \<and> sorted_wrt (\<lambda>a b. published_key b \<le> published_key a) ranked
         \<and> (\<forall>k. filter (\<lambda>p. published_key p = k) ranked =
                  filter (\<lambda>p. published_key p = k) ?fetched)"
    using eq sorted_sorted_reverse [of published_key ?fetched]
      filter_sorted_reverse [of published_key _ ?fetched]
    by blast
  show "prefix
          (filter (\<lambda>p. published_key p = k) (fst (get_recent_posts env category limit)))
          (filter (\<lambda>p. published_key p = k) ?fetched)" for k
    unfolding eq
    using prefix_filter_take [of "\<lambda>p. published_key p = k" limit
        "sorted_reverse published_key ?fetched"]
    by (simp only: filter_sorted_reverse)
qed

theorem C7_recent_posts_sorted_witness:
  "map bp_published_date (fst (get_recent_posts mixed_dates_feed None 10)) =
     [Some \<lparr>dt_year = 2025, dt_month = 10, dt_day = 28, dt_hour = 16, dt_minute = 59,
             dt_second = 17, dt_utcoffset = None\<rparr>, None]
   \<and> sorted_wrt (\<lambda>a b. published_key b \<le> published_key a)
        (fst (get_recent_posts mixed_dates_feed None 10))
   \<and> (0::nat) < 1
   \<and> prefix
        (filter (\<lambda>p. published_key p = datetime_key datetime_min)
           (fst (get_recent_posts undated_first_feed None 10)))
        (filter (\<lambda>p. published_key p = datetime_key datetime_min)
           (concat (map (\<lambda>u. fst (get_posts_from_rss undated_first_feed u (10 div 5 + 1)))
              selected_feeds)))
   \<and> map bp_title (filter (\<lambda>p. published_key p = datetime_key datetime_min)
           (concat (map (\<lambda>u. fst (get_posts_from_rss undated_first_feed u (10 div 5 + 1)))
              selected_feeds))) = [''Undated'', ''Oldest'']
   \<and> length (fst (get_recent_posts undated_first_feed None 10)) = 2"
proof -
  let ?out = "fst (get_recent_posts mixed_dates_feed None 10)"
  let ?t = "\<lparr>dt_year = 2025, dt_month = 10, dt_day = 28, dt_hour = 16, dt_minute = 59,
             dt_second = 17, dt_utcoffset = None\<rparr>"
  have h: "known_category None = None" by code_simp
  have e: "map bp_published_date ?out = [Some ?t, None]" by code_simp
  have l: "length ?out = 2" by code_simp
  have n1: "bp_published_date (?out ! 1) = None" by code_simp
  have n0: "bp_published_date (?out ! 0) = Some ?t" by code_simp
  have d: "?t \<noteq> datetime_min" by (simp add: datetime_min_def)
  have f: "map bp_title (filter (\<lambda>p. published_key p = datetime_key datetime_min)
           (concat (map (\<lambda>u. fst (get_posts_from_rss undated_first_feed u (10 div 5 + 1)))
              selected_feeds))) = [''Undated'', ''Oldest'']"
    by code_simp
  have l2: "length (fst (get_recent_posts undated_first_feed None 10)) = 2" by code_simp
  note c = C7_recent_posts_sorted [OF h, of mixed_dates_feed 10]
  from c have s: "sorted_wrt (\<lambda>a b. published_key b \<le> published_key a) ?out" by blast
  from c have "1 < length ?out \<and> 0 < length ?out \<and> bp_published_date (?out ! 1) = None
      \<and> bp_published_date (?out ! 0) = Some ?t \<and> ?t \<noteq> datetime_min \<longrightarrow> (0::nat) < 1"
    by blast
  with l n1 n0 d have z: "(0::nat) < 1" by simp
  from C7_recent_posts_sorted [OF h, of undated_first_feed 10]
  have p: "prefix
        (filter (\<lambda>p. published_key p = datetime_key datetime_min)
           (fst (get_recent_posts undated_first_feed None 10)))
        (filter (\<lambda>p. published_key p = datetime_key datetime_min)
           (concat (map (\<lambda>u. fst (get_posts_from_rss undated_first_feed u (10 div 5 + 1)))
              selected_feeds)))"
    by blast
  from e s z p f l2 show ?thesis by blast
qed

theorem C7_absent_before_known_counterexample:
  "map bp_published_date (fst (get_recent_posts undated_first_feed None 10)) =
     [None, Some datetime_min]
   \<and> \<not> (\<forall>i j. i < length (fst (get_recent_posts undated_first_feed None 10))
          \<and> j < length (fst (get_recent_posts undated_first_feed None 10))
          \<and> bp_published_date (fst (get_recent_posts undated_first_feed None 10) ! i) = None
          \<and> bp_published_date (fst (get_recent_posts undated_first_feed None 10) ! j) \<noteq> None
        \<longrightarrow> j < i)"
proof -
  have e: "map bp_published_date (fst (get_recent_posts undated_first_feed None 10)) =
     [None, Some datetime_min]"
    by code_simp
  then have l: "length (fst (get_recent_posts undated_first_feed None 10)) = 2"
    by (metis length_map length_Cons list.size(3) numeral_2_eq_2)
  have n0: "bp_published_date (fst (get_recent_posts undated_first_feed None 10) ! 0) = None"
    using e l by (metis nth_map nth_Cons_0 zero_less_numeral)
  have n1: "bp_published_date (fst (get_recent_posts undated_first_feed None 10) ! 1)
              = Some datetime_min"
    using e l by (metis nth_map nth_Cons_0 nth_Cons_Suc One_nat_def one_less_numeral_iff
        semiring_norm(76))
  have "\<not> (\<forall>i j. i < length (fst (get_recent_posts undated_first_feed None 10))
          \<and> j < length (fst (get_recent_posts undated_first_feed None 10))
          \<and> bp_published_date (fst (get_recent_posts undated_first_feed None 10) ! i) = None
          \<and> bp_published_date (fst (get_recent_posts undated_first_feed None 10) ! j) \<noteq> None
        \<longrightarrow> j < i)"
  proof
    assume a: "\<forall>i j. i < length (fst (get_recent_posts undated_first_feed None 10))
          \<and> j < length (fst (get_recent_posts undated_first_feed None 10))
          \<and> bp_published_date (fst (get_recent_posts undated_first_feed None 10) ! i) = None
          \<and> bp_published_date (fst (get_recent_posts undated_first_feed None 10) ! j) \<noteq> None
        \<longrightarrow> j < i"
    from a [rule_format, of 0 1] l n0 n1 show False by simp
  qed
  with e show ?thesis by blast
qed


subsection \<open>The header of a post\<close>

lemma metadata_header_shape:
  "\<exists>optional. metadata_header md url =
     (''# '' @ (case md_title md of None \<Rightarrow> ''AWS Blog Post'' | Some t \<Rightarrow> t) @ [CHR 0x0A, CHR 0x0A])
     @ optional
     @ (''**URL:** '' @ url @ [CHR 0x0A, CHR 0x0A] @ ''---'' @ [CHR 0x0A, CHR 0x0A])"
  by (rule exI [where x = "(case md_author md of
          None \<Rightarrow> []
        | Some a \<Rightarrow> if a = [] then [] else ''**Author:** '' @ a @ [CHR 0x0A])
     @ (case md_published_date md of
          None \<Rightarrow> []
        | Some t \<Rightarrow> ''**Published:** '' @ datetime_str t @ [CHR 0x0A])
     @ (case md_category md of
          None \<Rightarrow> []
        | Some c \<Rightarrow> if c = [] then [] else ''**Category:** '' @ c @ [CHR 0x0A])"])
    (simp add: metadata_header_def)



subsection \<open>Decimal numerals\<close>

lemma digit_char_in_digits: "d < 10 \<Longrightarrow> digit_char d \<in> set digits"
  by (auto simp: digit_char_def digits_def)

lemma digit_val_digit_char: "d < 10 \<Longrightarrow> digit_val (digit_char d) = int d"
  by (simp add: digit_char_def digit_val_def digits_def)

lemma show_nat_nonempty: "show_nat n \<noteq> []"
  by (subst show_nat.simps) simp

lemma show_nat_digits: "list_all (\<lambda>c. c \<in> set digits) (show_nat n)"
proof (induction n rule: show_nat.induct)
  case (1 n)
  show ?case
  proof (cases "n < 10")
    case True
    then show ?thesis by (subst show_nat.simps) (simp add: digit_char_in_digits)
  next
    case False
    with 1 show ?thesis by (subst show_nat.simps) (simp add: digit_char_in_digits)
  qed
qed

lemma show_nat_value: "foldl (\<lambda>a c. 10 * a + digit_val c) 0 (show_nat n) = int n"
proof (induction n rule: show_nat.induct)
  case (1 n)
  show ?case
  proof (cases "n < 10")
    case True
    then show ?thesis by (subst show_nat.simps) (simp add: digit_val_digit_char)
  next
    case False
    with 1 have "foldl (\<lambda>a c. 10 * a + digit_val c) 0 (show_nat (n div 10)) = int (n div 10)"
      by simp
    with False show ?thesis
      by (subst show_nat.simps) (simp add: digit_val_digit_char zdiv_int zmod_int)
  qed
qed

subsection \<open>The continuation notice\<close>

lemma continuation_marker_parts:
  "continuation_marker e = marker_prefix @ show_nat e @ marker_suffix"
  by (simp add: continuation_marker_def marker_prefix_def marker_suffix_def)

lemma read_offset_parts:
  assumes "ds \<noteq> []" and "list_all (\<lambda>c. c \<in> set digits) ds"
  shows "read_offset (marker_prefix @ ds @ marker_suffix) =
           Some (nat (foldl (\<lambda>a c. 10 * a + digit_val c) 0 ds))"
proof -
  let ?notice = "marker_prefix @ ds @ marker_suffix"
  have a: "prefix marker_prefix ?notice" by simp
  have b: "drop (length marker_prefix) ?notice = ds @ marker_suffix" by simp
  have c: "suffix marker_suffix (ds @ marker_suffix)" by (rule suffixI [OF refl])
  have d: "take (length ?notice - length marker_prefix - length marker_suffix)
             (ds @ marker_suffix) = ds" by simp
  show ?thesis
    unfolding read_offset_def Let_def b d using a c assms by simp
qed

lemma read_offset_marker: "read_offset (continuation_marker e) = Some e"
  unfolding continuation_marker_parts
  by (simp only: read_offset_parts [OF show_nat_nonempty show_nat_digits] show_nat_value nat_int)

lemma marker_prefix_nonempty: "marker_prefix \<noteq> []"
  by (simp add: marker_prefix_def)

lemma read_offset_Nil: "read_offset [] = None"
  using marker_prefix_nonempty by (simp add: read_offset_def)

lemma str_in_sublist: "str_in q s \<longleftrightarrow> sublist q s"
  by (induction s) (simp_all add: sublist_Cons_right)

lemma marker_contains_offset: "str_in (show_nat e) (continuation_marker e)"
  unfolding continuation_marker_parts str_in_sublist by (rule sublist_appendI)

subsection \<open>Pagination\<close>

lemma paginate_window:
  "start < length content \<Longrightarrow>
   paginate content start m =
     take m (drop start content)
     @ (if start + m < length content then continuation_marker (start + m) else [])"
  by (simp add: paginate_def Let_def)

lemma paginate_body:
  "start < length content \<Longrightarrow> chunk_body m (paginate content start m) = take m (drop start content)"
  by (auto simp: paginate_window chunk_body_def)

lemma paginate_next:
  "start < length content \<Longrightarrow>
   next_start_index m (paginate content start m) =
     (if start + m < length content then Some (start + m) else None)"
  by (auto simp: paginate_window next_start_index_def read_offset_marker read_offset_Nil)

lemma follow_markers_paginate:
  "0 < m \<Longrightarrow> start < length content \<Longrightarrow> length content \<le> start + fuel \<Longrightarrow>
   \<exists>chunks. follow_markers (\<lambda>i. paginate content i m) m fuel start = Some chunks
            \<and> concat chunks = drop start content"
proof (induction fuel arbitrary: start)
  case 0
  then show ?case by simp
next
  case (Suc fuel)
  show ?case
  proof (cases "start + m < length content")
    case True
    with Suc.prems have "start + m < length content" "length content \<le> (start + m) + fuel"
      by simp_all
    with Suc.IH [of "start + m"] Suc.prems(1)
    obtain chunks where c: "follow_markers (\<lambda>i. paginate content i m) m fuel (start + m) = Some chunks"
      and d: "concat chunks = drop (start + m) content"
      by blast
    have "take m (drop start content) @ drop (start + m) content = drop start content"
      by (metis append_take_drop_id drop_drop add.commute)
    with c d True Suc.prems(2) show ?thesis
      by (simp add: paginate_next paginate_body)
  next
    case False
    with Suc.prems(2) show ?thesis
      by (simp add: paginate_next paginate_body)
  qed
qed

lemma full_content_nonempty: "0 < length (full_content md url markdown_content)"
  by (simp add: full_content_def metadata_header_def)

lemma read_blog_post_page:
  "startswith url ''https://aws.amazon.com/blogs/'' \<Longrightarrow> fetch url = Inr html \<Longrightarrow>
   fst (read_blog_post fetch extract clean url m start) =
     paginate (full_content (extract html url) url (clean html)) start m"
  by (simp add: read_blog_post_def Let_def)

text \<open>
  Claim C5. For a post that is fetched and every \<open>max_length > 0\<close>: reading from
  offset 0 and asking each time for the offset that the notice of the previous chunk
  holds, until a chunk has no notice, ends, and the bodies of the chunks put together are
  the full text. A chunk that starts inside the text is the window followed by the
  notice exactly when the window ends before the end of the text, and the notice holds
  the decimal digits of the next offset, which are read back from it.
\<close>

theorem C5_pagination_reconstructs:
  assumes "startswith url ''https://aws.amazon.com/blogs/''"
    and "fetch url = Inr html"
    and "0 < max_length"
  shows "(\<exists>chunks.
            follow_markers (\<lambda>i. fst (read_blog_post fetch extract clean url max_length i))
              max_length (length (full_content (extract html url) url (clean html))) 0
              = Some chunks
            \<and> concat chunks = full_content (extract html url) url (clean html))
         \<and> (\<forall>start < length (full_content (extract html url) url (clean html)).
              fst (read_blog_post fetch extract clean url max_length start) =
                take max_length (drop start (full_content (extract html url) url (clean html)))
                @ (if start + max_length < length (full_content (extract html url) url (clean html))
                   then continuation_marker (start + max_length) else []))
         \<and> (\<forall>end_index. read_offset (continuation_marker end_index) = Some end_index
              \<and> str_in (show_nat end_index) (continuation_marker end_index))"
proof (intro conjI allI impI)
  let ?full = "full_content (extract html url) url (clean html)"
  have page: "(\<lambda>i. fst (read_blog_post fetch extract clean url max_length i)) =
      (\<lambda>i. paginate ?full i max_length)"
    using assms(1,2) by (simp add: read_blog_post_page)
  from follow_markers_paginate [OF assms(3), of 0 ?full "length ?full"] full_content_nonempty
  show "\<exists>chunks.
            follow_markers (\<lambda>i. fst (read_blog_post fetch extract clean url max_length i))
              max_length (length ?full) 0 = Some chunks
            \<and> concat chunks = ?full"
    unfolding page by simp
  show "fst (read_blog_post fetch extract clean url max_length start) =
          take max_length (drop start ?full)
          @ (if start + max_length < length ?full
             then continuation_marker (start + max_length) else [])"
    if "start < length ?full" for start
    using assms(1,2) that by (simp only: read_blog_post_page paginate_window)
  show "read_offset (continuation_marker end_index) = Some end_index" for end_index
    by (rule read_offset_marker)
  show "str_in (show_nat end_index) (continuation_marker end_index)" for end_index
    by (rule marker_contains_offset)
qed


theorem C5_pagination_reconstructs_witness:
  "startswith ''https://aws.amazon.com/blogs/aws/x/'' ''https://aws.amazon.com/blogs/''
   \<and> example_fetch ''https://aws.amazon.com/blogs/aws/x/'' = Inr ''<h1>T</h1><article>Body</article>''
   \<and> follow_markers
         (\<lambda>i. fst (read_blog_post example_fetch example_extract example_clean
                      ''https://aws.amazon.com/blogs/aws/x/'' 20 i))
         20 88 0
       = Some [''# T'' @ [CHR 0x0A, CHR 0x0A] @ ''**Category:** A'',
               ''WS News Blog'' @ [CHR 0x0A] @ ''**URL:*'',
               ''* https://aws.amazon'',
               ''.com/blogs/aws/x/'' @ [CHR 0x0A, CHR 0x0A] @ ''-'',
               ''--'' @ [CHR 0x0A, CHR 0x0A] @ ''Body'']
   \<and> (\<exists>chunks.
         follow_markers
           (\<lambda>i. fst (read_blog_post example_fetch example_extract example_clean
                        ''https://aws.amazon.com/blogs/aws/x/'' 20 i))
           20 (length (full_content
              (example_extract ''<h1>T</h1><article>Body</article>''
                 ''https://aws.amazon.com/blogs/aws/x/'')
              ''https://aws.amazon.com/blogs/aws/x/''
              (example_clean ''<h1>T</h1><article>Body</article>''))) 0
         = Some chunks
         \<and> concat chunks = full_content
              (example_extract ''<h1>T</h1><article>Body</article>''
                 ''https://aws.amazon.com/blogs/aws/x/'')
              ''https://aws.amazon.com/blogs/aws/x/''
              (example_clean ''<h1>T</h1><article>Body</article>''))
   \<and> fst (read_blog_post example_fetch example_extract example_clean
             ''https://aws.amazon.com/blogs/aws/x/'' 20 0)
       = (''# T'' @ [CHR 0x0A, CHR 0x0A] @ ''**Category:** A'') @ continuation_marker 20"
proof -
  let ?full = "full_content
              (example_extract ''<h1>T</h1><article>Body</article>''
                 ''https://aws.amazon.com/blogs/aws/x/'')
              ''https://aws.amazon.com/blogs/aws/x/''
              (example_clean ''<h1>T</h1><article>Body</article>'')"
  have h1: "startswith ''https://aws.amazon.com/blogs/aws/x/'' ''https://aws.amazon.com/blogs/''"
    by code_simp
  have h2: "example_fetch ''https://aws.amazon.com/blogs/aws/x/''
              = Inr ''<h1>T</h1><article>Body</article>''"
    by code_simp
  have h3: "(0::nat) < 20" by simp
  have e: "follow_markers
         (\<lambda>i. fst (read_blog_post example_fetch example_extract example_clean
                      ''https://aws.amazon.com/blogs/aws/x/'' 20 i))
         20 88 0
       = Some [''# T'' @ [CHR 0x0A, CHR 0x0A] @ ''**Category:** A'',
               ''WS News Blog'' @ [CHR 0x0A] @ ''**URL:*'',
               ''* https://aws.amazon'',
               ''.com/blogs/aws/x/'' @ [CHR 0x0A, CHR 0x0A] @ ''-'',
               ''--'' @ [CHR 0x0A, CHR 0x0A] @ ''Body'']"
    by code_simp
  have l0: "0 < length ?full" by code_simp
  have l1: "0 + 20 < length ?full" by code_simp
  have w: "take 20 (drop 0 ?full) = ''# T'' @ [CHR 0x0A, CHR 0x0A] @ ''**Category:** A''"
    by code_simp
  note c = C5_pagination_reconstructs [of "''https://aws.amazon.com/blogs/aws/x/''"
        example_fetch "''<h1>T</h1><article>Body</article>''" 20 example_extract example_clean,
        OF h1 h2 h3]
  from c have x: "\<exists>chunks.
         follow_markers
           (\<lambda>i. fst (read_blog_post example_fetch example_extract example_clean
                        ''https://aws.amazon.com/blogs/aws/x/'' 20 i))
           20 (length ?full) 0 = Some chunks \<and> concat chunks = ?full"
    by (rule conjunct1)
  from c l0 have "fst (read_blog_post example_fetch example_extract example_clean
             ''https://aws.amazon.com/blogs/aws/x/'' 20 0)
       = take 20 (drop 0 ?full)
         @ (if 0 + 20 < length ?full then continuation_marker (0 + 20) else [])"
    by blast
  with l1 w have y: "fst (read_blog_post example_fetch example_extract example_clean
             ''https://aws.amazon.com/blogs/aws/x/'' 20 0)
       = (''# T'' @ [CHR 0x0A, CHR 0x0A] @ ''**Category:** A'') @ continuation_marker 20"
    by (simp only: if_True add_0)
  from h1 h2 e x y show ?thesis by blast
qed

subsection \<open>The header in what \<^verbatim>\<open>read_blog_post\<close> returns\<close>

lemma paginate_fits:
  "0 < length content \<Longrightarrow> length content \<le> m \<Longrightarrow> paginate content 0 m = content"
  by (simp add: paginate_def Let_def)

lemma paginate_prefix:
  "prefix p content \<Longrightarrow> p \<noteq> [] \<Longrightarrow> length p \<le> m \<Longrightarrow> prefix p (paginate content 0 m)"
proof -
  assume p: "prefix p content" and n: "p \<noteq> []" and l: "length p \<le> m"
  from p obtain rest where c: "content = p @ rest" by (auto simp: prefix_def)
  with n have "0 < length content" by simp
  then have "paginate content 0 m =
      take m content @ (if 0 + m < length content then continuation_marker (0 + m) else [])"
    using paginate_window [of 0 content m] by simp
  moreover from c l have "take m content = p @ take (m - length p) rest" by simp
  ultimately show ?thesis by simp
qed

text \<open>
  Claim C10. For a post that is fetched, \<^verbatim>\<open>read_blog_post\<close> returns the page of
  the assembled text, and that text begins with the title line; when the extraction found
  no title the line is \<^verbatim>\<open># AWS Blog Post\<close>. The header ends with the URL line and
  the separator, which come after the title line, whatever optional fields were found.
  From offset 0 the output begins with the title line when \<open>max_length\<close> covers it, and
  is the header followed by the markdown when \<open>max_length\<close> covers the whole text.
\<close>

theorem C10_header_lines:
  assumes "startswith url ''https://aws.amazon.com/blogs/''"
    and "fetch url = Inr html"
  shows "fst (read_blog_post fetch extract clean url max_length start_index) =
           paginate (full_content (extract html url) url (clean html)) start_index max_length
   \<and> prefix (''# '' @ (case md_title (extract html url) of
                          None \<Rightarrow> ''AWS Blog Post'' | Some t \<Rightarrow> t) @ [CHR 0x0A, CHR 0x0A])
        (full_content (extract html url) url (clean html))
   \<and> (md_title (extract html url) = None \<longrightarrow>
        prefix (''# AWS Blog Post'' @ [CHR 0x0A, CHR 0x0A])
          (full_content (extract html url) url (clean html)))
   \<and> prefix (metadata_header (extract html url) url)
        (full_content (extract html url) url (clean html))
   \<and> suffix (''**URL:** '' @ url @ [CHR 0x0A, CHR 0x0A] @ ''---'' @ [CHR 0x0A, CHR 0x0A])
        (metadata_header (extract html url) url)
   \<and> length (''# '' @ (case md_title (extract html url) of
                          None \<Rightarrow> ''AWS Blog Post'' | Some t \<Rightarrow> t) @ [CHR 0x0A, CHR 0x0A])
      + length (''**URL:** '' @ url @ [CHR 0x0A, CHR 0x0A] @ ''---'' @ [CHR 0x0A, CHR 0x0A])
      \<le> length (metadata_header (extract html url) url)
   \<and> (length (''# '' @ (case md_title (extract html url) of
                          None \<Rightarrow> ''AWS Blog Post'' | Some t \<Rightarrow> t) @ [CHR 0x0A, CHR 0x0A])
        \<le> max_length
      \<longrightarrow> prefix (''# '' @ (case md_title (extract html url) of
                          None \<Rightarrow> ''AWS Blog Post'' | Some t \<Rightarrow> t) @ [CHR 0x0A, CHR 0x0A])
            (fst (read_blog_post fetch extract clean url max_length 0)))
   \<and> (length (full_content (extract html url) url (clean html)) \<le> max_length
      \<longrightarrow> fst (read_blog_post fetch extract clean url max_length 0) =
            metadata_header (extract html url) url @ clean html)"
proof -
  let ?md = "extract html url"
  let ?full = "full_content ?md url (clean html)"
  let ?title = "''# '' @ (case md_title ?md of None \<Rightarrow> ''AWS Blog Post'' | Some t \<Rightarrow> t)
                 @ [CHR 0x0A, CHR 0x0A]"
  have page: "fst (read_blog_post fetch extract clean url max_length i) =
      paginate ?full i max_length" for i
    using assms by (rule read_blog_post_page)
  obtain optional where h: "metadata_header ?md url =
     (''# '' @ (case md_title ?md of None \<Rightarrow> ''AWS Blog Post'' | Some t \<Rightarrow> t) @ [CHR 0x0A, CHR 0x0A])
     @ optional
     @ (''**URL:** '' @ url @ [CHR 0x0A, CHR 0x0A] @ ''---'' @ [CHR 0x0A, CHR 0x0A])"
    using metadata_header_shape by blast
  have 1: "prefix ?title ?full"
    unfolding full_content_def h by (simp only: append_assoc prefixI)
  have 2: "md_title ?md = None \<longrightarrow>
        prefix (''# AWS Blog Post'' @ [CHR 0x0A, CHR 0x0A]) ?full"
  proof
    assume "md_title ?md = None"
    with 1 show "prefix (''# AWS Blog Post'' @ [CHR 0x0A, CHR 0x0A]) ?full"
      by simp
  qed
  have 3: "prefix (metadata_header ?md url) ?full"
    by (simp add: full_content_def)
  have 4: "suffix (''**URL:** '' @ url @ [CHR 0x0A, CHR 0x0A] @ ''---'' @ [CHR 0x0A, CHR 0x0A])
        (metadata_header ?md url)"
    by (subst h) (rule suffixI [OF append_assoc [symmetric]])
  have 5: "length ?title
      + length (''**URL:** '' @ url @ [CHR 0x0A, CHR 0x0A] @ ''---'' @ [CHR 0x0A, CHR 0x0A])
      \<le> length (metadata_header ?md url)"
    using arg_cong [OF h, of length] by simp
  have 6: "length ?title \<le> max_length \<longrightarrow>
      prefix ?title (fst (read_blog_post fetch extract clean url max_length 0))"
  proof
    assume "length ?title \<le> max_length"
    moreover have "?title \<noteq> []" by simp
    ultimately show "prefix ?title (fst (read_blog_post fetch extract clean url max_length 0))"
      unfolding page using 1 by (intro paginate_prefix)
  qed
  have 7: "length ?full \<le> max_length \<longrightarrow>
      fst (read_blog_post fetch extract clean url max_length 0) =
        metadata_header ?md url @ clean html"
  proof
    assume "length ?full \<le> max_length"
    with full_content_nonempty [of ?md url "clean html"]
    have "paginate ?full 0 max_length = ?full" by (intro paginate_fits)
    then show "fst (read_blog_post fetch extract clean url max_length 0) =
        metadata_header ?md url @ clean html"
      unfolding page by (simp add: full_content_def)
  qed
  from page [of start_index] 1 2 3 4 5 6 7 show ?thesis by blast
qed

theorem C10_header_lines_witness:
  "startswith ''https://aws.amazon.com/blogs/aws/y/'' ''https://aws.amazon.com/blogs/''
   \<and> example_fetch ''https://aws.amazon.com/blogs/aws/y/'' = Inr ''<article>Body</article>''
   \<and> md_title (example_extract ''<article>Body</article>''
                  ''https://aws.amazon.com/blogs/aws/y/'') = None
   \<and> prefix (''# AWS Blog Post'' @ [CHR 0x0A, CHR 0x0A])
        (full_content (example_extract ''<article>Body</article>''
                         ''https://aws.amazon.com/blogs/aws/y/'')
           ''https://aws.amazon.com/blogs/aws/y/'' (example_clean ''<article>Body</article>''))
   \<and> prefix (''# AWS Blog Post'' @ [CHR 0x0A, CHR 0x0A])
        (fst (read_blog_post example_fetch example_extract example_clean
                ''https://aws.amazon.com/blogs/aws/y/'' 30 0))
   \<and> fst (read_blog_post example_fetch example_extract example_clean
             ''https://aws.amazon.com/blogs/aws/y/'' 200 0)
       = ''# AWS Blog Post'' @ [CHR 0x0A, CHR 0x0A] @ ''**Category:** AWS News Blog'' @ [CHR 0x0A]
         @ ''**URL:** https://aws.amazon.com/blogs/aws/y/'' @ [CHR 0x0A, CHR 0x0A] @ ''---''
         @ [CHR 0x0A, CHR 0x0A] @ ''Body''"
proof -
  let ?url = "''https://aws.amazon.com/blogs/aws/y/''"
  let ?html = "''<article>Body</article>''"
  let ?md = "example_extract ?html ?url"
  have h1: "startswith ?url ''https://aws.amazon.com/blogs/''" by code_simp
  have h2: "example_fetch ?url = Inr ?html" by code_simp
  have h3: "md_title ?md = None" by code_simp
  have t: "(case md_title ?md of None \<Rightarrow> ''AWS Blog Post'' | Some t \<Rightarrow> t) = ''AWS Blog Post''"
    by (simp only: h3 option.case)
  have l30: "length (''# '' @ (case md_title ?md of None \<Rightarrow> ''AWS Blog Post'' | Some t \<Rightarrow> t)
               @ [CHR 0x0A, CHR 0x0A]) \<le> 30"
    by (simp only: t) simp
  have l200: "length (full_content ?md ?url (example_clean ?html)) \<le> 200" by code_simp
  have v: "metadata_header ?md ?url @ example_clean ?html
       = ''# AWS Blog Post'' @ [CHR 0x0A, CHR 0x0A] @ ''**Category:** AWS News Blog'' @ [CHR 0x0A]
         @ ''**URL:** https://aws.amazon.com/blogs/aws/y/'' @ [CHR 0x0A, CHR 0x0A] @ ''---''
         @ [CHR 0x0A, CHR 0x0A] @ ''Body''"
    by code_simp
  note c30 = C10_header_lines [of ?url example_fetch ?html example_extract example_clean 30 0,
      OF h1 h2]
  note c200 = C10_header_lines [of ?url example_fetch ?html example_extract example_clean 200 0,
      OF h1 h2]
  from c30 h3 have a: "prefix (''# AWS Blog Post'' @ [CHR 0x0A, CHR 0x0A])
        (full_content ?md ?url (example_clean ?html))"
    by blast
  from c30 l30 have "prefix (''# '' @ (case md_title ?md of
                          None \<Rightarrow> ''AWS Blog Post'' | Some t \<Rightarrow> t) @ [CHR 0x0A, CHR 0x0A])
        (fst (read_blog_post example_fetch example_extract example_clean ?url 30 0))"
    by blast
  then have b: "prefix (''# AWS Blog Post'' @ [CHR 0x0A, CHR 0x0A])
        (fst (read_blog_post example_fetch example_extract example_clean ?url 30 0))"
    by (simp only: t append.simps)
  from c200 l200 have "fst (read_blog_post example_fetch example_extract example_clean ?url 200 0)
      = metadata_header ?md ?url @ example_clean ?html"
    by blast
  then have d: "fst (read_blog_post example_fetch example_extract example_clean ?url 200 0)
       = ''# AWS Blog Post'' @ [CHR 0x0A, CHR 0x0A] @ ''**Category:** AWS News Blog'' @ [CHR 0x0A]
         @ ''**URL:** https://aws.amazon.com/blogs/aws/y/'' @ [CHR 0x0A, CHR 0x0A] @ ''---''
         @ [CHR 0x0A, CHR 0x0A] @ ''Body''"
    using v by (rule trans)
  from h1 h2 h3 a b d show ?thesis by blast
qed

subsection \<open>Only \<^verbatim>\<open>ValueError\<close> leaves \<^verbatim>\<open>strptime\<close>\<close>

lemma py_int_error: "py_int s = Inl e \<Longrightarrow> \<exists>m. e = ValueError m"
  by (auto simp: py_int_def Let_def split: if_splits)

lemma datetime_new_error: "datetime_new y mo d h mi s tz = Inl e \<Longrightarrow> \<exists>m. e = ValueError m"
  by (auto simp: datetime_new_def split: if_splits option.splits)

lemma index_of_error: "index_of ns t = Inl e \<Longrightarrow> \<exists>m. e = ValueError m"
  by (induction ns arbitrary: e) (auto split: if_splits sum.splits)

lemma int_group_error: "int_group gs g dflt = Inl e \<Longrightarrow> \<exists>m. e = ValueError m"
  by (auto simp: int_group_def split: option.splits dest: py_int_error)

lemma month_group_error: "month_group gs = Inl e \<Longrightarrow> \<exists>m. e = ValueError m"
  by (auto simp: month_group_def split: option.splits dest: index_of_error int_group_error)

lemma gmtoff_of_error: "gmtoff_of z = Inl e \<Longrightarrow> \<exists>m. e = ValueError m"
  unfolding gmtoff_of_def Let_def
  by (auto split: if_splits sum.splits dest: py_int_error)

lemma convert_groups_error: "convert_groups gs = Inl e \<Longrightarrow> \<exists>m. e = ValueError m"
  unfolding convert_groups_def
  by (auto split: sum.splits option.splits
           dest: int_group_error month_group_error gmtoff_of_error datetime_new_error)

lemma pattern_error: "pattern fmt = Inl e \<Longrightarrow> \<exists>m. e = ValueError m"
  by (induction fmt arbitrary: e rule: pattern.induct)
     (auto split: if_splits list.splits option.splits sum.splits)

lemma strptime_error: "strptime s fmt = Inl e \<Longrightarrow> \<exists>m. e = ValueError m"
  unfolding strptime_def
  by (auto split: sum.splits list.splits prod.splits if_splits
           dest: pattern_error convert_groups_error)

lemma try_formats_returns: "\<exists>r. try_formats s fmts = Inr r"
proof (induction fmts)
  case Nil
  then show ?case by simp
next
  case (Cons fmt fmts)
  show ?case
  proof (cases "strptime (strip s) fmt")
    case (Inl e)
    then obtain m where "e = ValueError m" using strptime_error by blast
    with Inl Cons.IH show ?thesis by simp
  next
    case (Inr t)
    then show ?thesis by simp
  qed
qed

lemma parse_date_string_returns: "\<exists>r. parse_date_string s = Inr r"
  by (simp add: parse_date_string_def try_formats_returns)

text \<open>
  Claim C8. \<^verbatim>\<open>parse_date_string\<close> returns a timestamp for the four dated inputs of
  the specification, \<^verbatim>\<open>None\<close> for \<^verbatim>\<open>invalid-date\<close> and for the empty string, and
  for every input it returns (a timestamp or \<^verbatim>\<open>None\<close>) and does not raise.
\<close>

theorem C8_parse_date_string:
  "parse_date_string ''2025-10-28T16:59:17-07:00'' =
     Inr (Some \<lparr>dt_year = 2025, dt_month = 10, dt_day = 28, dt_hour = 16, dt_minute = 59,
                dt_second = 17, dt_utcoffset = Some (- 25200000000)\<rparr>)
   \<and> parse_date_string ''October 28, 2025'' =
     Inr (Some \<lparr>dt_year = 2025, dt_month = 10, dt_day = 28, dt_hour = 0, dt_minute = 0,
                dt_second = 0, dt_utcoffset = None\<rparr>)
   \<and> parse_date_string ''Oct 28, 2025'' =
     Inr (Some \<lparr>dt_year = 2025, dt_month = 10, dt_day = 28, dt_hour = 0, dt_minute = 0,
                dt_second = 0, dt_utcoffset = None\<rparr>)
   \<and> parse_date_string ''2025-10-28'' =
     Inr (Some \<lparr>dt_year = 2025, dt_month = 10, dt_day = 28, dt_hour = 0, dt_minute = 0,
                dt_second = 0, dt_utcoffset = None\<rparr>)
   \<and> parse_date_string ''invalid-date'' = Inr None
   \<and> parse_date_string [] = Inr None
   \<and> (\<forall>date_str. \<exists>r. parse_date_string date_str = Inr r)"
proof -
  have 1: "parse_date_string ''2025-10-28T16:59:17-07:00'' =
     Inr (Some \<lparr>dt_year = 2025, dt_month = 10, dt_day = 28, dt_hour = 16, dt_minute = 59,
                dt_second = 17, dt_utcoffset = Some (- 25200000000)\<rparr>)"
    by code_simp
  have 2: "parse_date_string ''October 28, 2025'' =
     Inr (Some \<lparr>dt_year = 2025, dt_month = 10, dt_day = 28, dt_hour = 0, dt_minute = 0,
                dt_second = 0, dt_utcoffset = None\<rparr>)"
    by code_simp
  have 3: "parse_date_string ''Oct 28, 2025'' =
     Inr (Some \<lparr>dt_year = 2025, dt_month = 10, dt_day = 28, dt_hour = 0, dt_minute = 0,
                dt_second = 0, dt_utcoffset = None\<rparr>)"
    by code_simp
  have 4: "parse_date_string ''2025-10-28'' =
     Inr (Some \<lparr>dt_year = 2025, dt_month = 10, dt_day = 28, dt_hour = 0, dt_minute = 0,
                dt_second = 0, dt_utcoffset = None\<rparr>)"
    by code_simp
  have 5: "parse_date_string ''invalid-date'' = Inr None"
    by code_simp
  have 6: "parse_date_string [] = Inr None"
    by (simp add: parse_date_string_def)
  from 1 2 3 4 5 6 parse_date_string_returns show ?thesis by blast
qed

theorem C8_parse_date_string_witness:
  "\<exists>r. parse_date_string ''28 October 2025'' = Inr r"
  using C8_parse_date_string by blast


end
